theory Spec2Isabelle
  imports Main "HOL-Library.Word"
begin

section \<open>Machine integers and object representations\<close>

type_synonym u8 = "8 word"
type_synonym u16 = "16 word"
type_synonym u32 = "32 word"
type_synonym u64 = "64 word"

text \<open>
  A trivially copyable value is handled by \<open>Parcel\<close> through \<open>std::memcpy\<close> only, so the
  model carries it as its object representation: a list of bytes, \<open>sizeof(T)\<close> long.
  The fields are little-endian (\<open>u32_le\<close>, \<open>u16_le\<close>).
\<close>

fun le_encode :: "nat \<Rightarrow> nat \<Rightarrow> u8 list" where
  "le_encode 0 n = []"
| "le_encode (Suc k) n = of_nat (n mod 256) # le_encode k (n div 256)"

fun le_decode :: "u8 list \<Rightarrow> nat" where
  "le_decode [] = 0"
| "le_decode (b # bs) = unat b + 256 * le_decode bs"

definition u32_to_le :: "u32 \<Rightarrow> u8 list" where
  "u32_to_le w = le_encode 4 (unat w)"

definition u32_from_le :: "u8 list \<Rightarrow> u32" where
  "u32_from_le bs = of_nat (le_decode bs)"

definition u16_from_le :: "u8 list \<Rightarrow> u16" where
  "u16_from_le bs = of_nat (le_decode bs)"

text \<open>\<open>std::memcpy(&val, buffer.data() + off, n)\<close>: the \<open>n\<close> bytes at \<open>off\<close>.\<close>

definition slice :: "nat \<Rightarrow> nat \<Rightarrow> u8 list \<Rightarrow> u8 list" where
  "slice off n bs = take n (drop off bs)"

section \<open>Errors\<close>

text \<open>
  Modelled from the spec: \<open>common/assert.h\<close> is not among the sources; a failed
  \<open>ASSERT\<close> aborts the path (spec section 7: all failures but NotFound, Unsupported and
  PermissionDenied abort the transaction path outright). Every way a path of the source
  stops without returning is a value of this type. The failed assertions of the
  \<open>Parcel\<close> class are the spec's ProtocolViolation; a failed \<open>ASSERT_MSG\<close> keeps its
  message. \<open>OutOfBounds\<close> is a \<open>memcpy\<close> past the end of the backing vector, which the
  source never checks (undefined behaviour in C++). \<open>InvalidState\<close>, \<open>NotFound\<close> and
  \<open>FatalDefect\<close> are the failures of the buffer queue and the registry, which the spec
  names.
\<close>

datatype error =
    ProtocolViolation
  | OutOfBounds
  | AssertFailed string
  | InvalidState
  | NotFound
  | FatalDefect

section \<open>Common::AlignUp\<close>

text \<open>
  Modelled from the spec: \<open>common/alignment.h\<close> is not among the sources. The spec has
  the cursor rounded up to the next multiple of 4; \<open>AlignUp value size\<close> rounds \<open>value\<close>
  up to the next multiple of \<open>size\<close>. The cursors are \<open>std::size_t\<close>; they are modelled
  as \<open>nat\<close>: a cursor starts at a 32-bit header field or at 0 and grows by the sizes of the
  values of one parcel, far from \<open>2 ^ 64\<close>.
\<close>

definition AlignUp :: "nat \<Rightarrow> nat \<Rightarrow> nat" where
  "AlignUp val sz = (if val mod sz = 0 then val else val - val mod sz + sz)"

section \<open>class Parcel\<close>

record Parcel =
  buffer :: "u8 list"
  read_index :: nat
  write_index :: nat

definition DefaultBufferSize :: nat where
  "DefaultBufferSize = 0x40"

text \<open>\<open>Parcel() : buffer(DefaultBufferSize)\<close> and \<open>Parcel(std::vector<u8> data)\<close>.\<close>

definition Parcel_default :: Parcel where
  "Parcel_default = \<lparr>buffer = replicate DefaultBufferSize 0, read_index = 0, write_index = 0\<rparr>"

definition Parcel_of :: "u8 list \<Rightarrow> Parcel" where
  "Parcel_of data = \<lparr>buffer = data, read_index = 0, write_index = 0\<rparr>"

text \<open>\<open>Read<T>\<close>, with \<open>n = sizeof(T)\<close>; the value is returned as its bytes.\<close>

definition Read :: "nat \<Rightarrow> Parcel \<Rightarrow> error + (u8 list \<times> Parcel)" where
  "Read n p =
     (if read_index p + n \<le> length (buffer p)
      then Inr (slice (read_index p) n (buffer p),
                p\<lparr>read_index := AlignUp (read_index p + n) 4\<rparr>)
      else Inl ProtocolViolation)"

definition ReadUnaligned :: "nat \<Rightarrow> Parcel \<Rightarrow> error + (u8 list \<times> Parcel)" where
  "ReadUnaligned n p =
     (if read_index p + n \<le> length (buffer p)
      then Inr (slice (read_index p) n (buffer p), p\<lparr>read_index := read_index p + n\<rparr>)
      else Inl ProtocolViolation)"

definition ReadBlock :: "nat \<Rightarrow> Parcel \<Rightarrow> error + (u8 list \<times> Parcel)" where
  "ReadBlock len p =
     (if read_index p + len \<le> length (buffer p)
      then Inr (slice (read_index p) len (buffer p),
                p\<lparr>read_index := AlignUp (read_index p + len) 4\<rparr>)
      else Inl ProtocolViolation)"

text \<open>
  The loop of \<open>ReadInterfaceToken\<close>: \<open>for (u32 ch = 0; ch < length + 1; ++ch)
  token.push_back(ReadUnaligned<u16_le>())\<close>, on the number of iterations left.
\<close>

fun read_code_units :: "nat \<Rightarrow> Parcel \<Rightarrow> error + (u16 list \<times> Parcel)" where
  "read_code_units 0 p = Inr ([], p)"
| "read_code_units (Suc k) p =
     (case ReadUnaligned 2 p of
        Inl e \<Rightarrow> Inl e
      | Inr (c, p1) \<Rightarrow>
          (case read_code_units k p1 of
             Inl e \<Rightarrow> Inl e
           | Inr (cs, p2) \<Rightarrow> Inr (u16_from_le c # cs, p2)))"

text \<open>
  \<open>length + 1\<close> is computed in \<open>u32\<close>, so it wraps to 0 at \<open>0xFFFFFFFF\<close>.
\<close>

definition ReadInterfaceToken :: "Parcel \<Rightarrow> error + (u16 list \<times> Parcel)" where
  "ReadInterfaceToken p =
     (case Read 4 p of
        Inl e \<Rightarrow> Inl e
      | Inr (unknown, p1) \<Rightarrow>
          (case Read 4 p1 of
             Inl e \<Rightarrow> Inl e
           | Inr (len, p2) \<Rightarrow>
               (case read_code_units (unat (u32_from_le len + 1)) p2 of
                  Inl e \<Rightarrow> Inl e
                | Inr (token, p3) \<Rightarrow>
                    Inr (token, p3\<lparr>read_index := AlignUp (read_index p3) 4\<rparr>))))"

text \<open>
  \<open>std::memcpy(buffer.data() + off, &val, sizeof(T))\<close>: in range it overwrites the bytes at
  \<open>off\<close>; out of range the source has undefined behaviour.
\<close>

definition memcpy_to :: "u8 list \<Rightarrow> nat \<Rightarrow> u8 list \<Rightarrow> error + u8 list" where
  "memcpy_to buf off val =
     (if off + length val \<le> length buf
      then Inr (take off buf @ val @ drop (off + length val) buf)
      else Inl OutOfBounds)"

text \<open>\<open>Write<T>(val)\<close>, with \<open>val\<close> given as its \<open>sizeof(T)\<close> bytes.\<close>

definition Write :: "u8 list \<Rightarrow> Parcel \<Rightarrow> error + Parcel" where
  "Write val p =
     (let buf = (if length (buffer p) < write_index p + length val
                 then buffer p @ replicate (length val + DefaultBufferSize) 0
                 else buffer p)
      in case memcpy_to buf (write_index p) val of
           Inl e \<Rightarrow> Inl e
         | Inr buf' \<Rightarrow>
             Inr (p\<lparr>buffer := buf', write_index := AlignUp (write_index p + length val) 4\<rparr>))"

text \<open>\<open>WriteObject<T>(val)\<close>: the size, an Fd count of 0, the value.\<close>

definition WriteObject :: "u8 list \<Rightarrow> Parcel \<Rightarrow> error + Parcel" where
  "WriteObject val p =
     (case Write (u32_to_le (of_nat (length val))) p of
        Inl e \<Rightarrow> Inl e
      | Inr p1 \<Rightarrow>
          (case Write (u32_to_le 0) p1 of
             Inl e \<Rightarrow> Inl e
           | Inr p2 \<Rightarrow> Write val p2))"

text \<open>A \<open>SerializeData\<close> body that is a sequence of \<open>Write\<close> calls, in order.\<close>

fun WriteAll :: "u8 list list \<Rightarrow> Parcel \<Rightarrow> error + Parcel" where
  "WriteAll [] p = Inr p"
| "WriteAll (v # vs) p = (case Write v p of Inl e \<Rightarrow> Inl e | Inr p1 \<Rightarrow> WriteAll vs p1)"

record Header =
  data_size :: u32
  data_offset :: u32
  objects_size :: u32
  objects_offset :: u32

definition sizeof_Header :: nat where
  "sizeof_Header = 16"

definition Header_to_bytes :: "Header \<Rightarrow> u8 list" where
  "Header_to_bytes h =
     u32_to_le (data_size h) @ u32_to_le (data_offset h) @
     u32_to_le (objects_size h) @ u32_to_le (objects_offset h)"

definition Header_from_bytes :: "u8 list \<Rightarrow> Header" where
  "Header_from_bytes bs =
     \<lparr>data_size = u32_from_le (slice 0 4 bs), data_offset = u32_from_le (slice 4 4 bs),
      objects_size = u32_from_le (slice 8 4 bs), objects_offset = u32_from_le (slice 12 4 bs)\<rparr>"

text \<open>
  \<open>Deserialize\<close>; the virtual \<open>DeserializeData\<close> of the subclass is the first argument.
\<close>

definition Deserialize ::
  "(Parcel \<Rightarrow> error + 'a) \<Rightarrow> Parcel \<Rightarrow> error + 'a" where
  "Deserialize DeserializeData p =
     (if length (buffer p) > sizeof_Header
      then DeserializeData
             (p\<lparr>read_index :=
                  unat (data_offset (Header_from_bytes (slice 0 sizeof_Header (buffer p))))\<rparr>)
      else Inl ProtocolViolation)"

text \<open>
  \<open>Serialize\<close>; the virtual \<open>SerializeData\<close> of the subclass is the first argument. The
  result is the returned copy of \<open>buffer\<close>.
\<close>

definition Serialize ::
  "(Parcel \<Rightarrow> error + Parcel) \<Rightarrow> Parcel \<Rightarrow> error + u8 list" where
  "Serialize SerializeData p =
     (if read_index p = 0
      then (case SerializeData (p\<lparr>write_index := sizeof_Header\<rparr>) of
              Inl e \<Rightarrow> Inl e
            | Inr p1 \<Rightarrow>
                (let dsize = (of_nat (write_index p1 - sizeof_Header) :: u32);
                     header = \<lparr>data_size = dsize, data_offset = of_nat sizeof_Header,
                               objects_size = 4,
                               objects_offset = of_nat (sizeof_Header + unat dsize)\<rparr>
                 in memcpy_to (buffer p1) 0 (Header_to_bytes header)))
      else Inl ProtocolViolation)"

text \<open>
  The number of data bytes a sequence of \<open>Write\<close> calls puts after the header: each value
  takes its size rounded up to a multiple of 4.
\<close>

definition data_bytes :: "u8 list list \<Rightarrow> nat" where
  "data_bytes vs = sum_list (map (\<lambda>v. AlignUp (length v) 4) vs)"

section \<open>Result codes and IPC responses\<close>

text \<open>
  Modelled from the spec: \<open>core/hle/result.h\<close> is not among the sources. A
  \<open>ResultCode\<close> is built from an error module and a description number;
  \<open>RESULT_SUCCESS\<close> is the code of no error.
\<close>

datatype ErrorModule = Common | VI

datatype ResultCode = ResultCode ErrorModule nat

definition RESULT_SUCCESS :: ResultCode where
  "RESULT_SUCCESS = ResultCode Common 0"

definition ERR_OPERATION_FAILED :: ResultCode where
  "ERR_OPERATION_FAILED = ResultCode VI 1"

definition ERR_PERMISSION_DENIED :: ResultCode where
  "ERR_PERMISSION_DENIED = ResultCode VI 5"

definition ERR_UNSUPPORTED :: ResultCode where
  "ERR_UNSUPPORTED = ResultCode VI 6"

definition ERR_NOT_FOUND :: ResultCode where
  "ERR_NOT_FOUND = ResultCode VI 7"

text \<open>
  What a handler builds with \<open>IPC::ResponseBuilder\<close>: the result code pushed first, the
  raw values pushed after it, and the service interfaces handed out with
  \<open>PushIpcInterface\<close>.
\<close>

datatype Interface =
    IApplicationDisplayService
  | IHOSBinderDriver
  | ISystemDisplayService
  | IManagerDisplayService

record IpcResponse =
  result :: ResultCode
  pushed :: "u64 list"
  interfaces :: "Interface list"

section \<open>The access gate of the display service\<close>

text \<open>
  Modelled from the spec: \<open>vi.h\<close>, which declares \<open>enum class Permission\<close> and
  \<open>enum class Policy\<close>, is not among the sources. The spec lists the caller classes
  User, System, Manager and the policies User, Compositor; the enumerators are numbered
  in that order from 0. The policy is popped from the request (\<open>rp.PopEnum<Policy>()\<close>),
  so it can be any 32-bit value; both enums are kept as their underlying values.
\<close>

definition Permission_User :: u32 where "Permission_User = 0"
definition Permission_System :: u32 where "Permission_System = 1"
definition Permission_Manager :: u32 where "Permission_Manager = 2"

definition Policy_User :: u32 where "Policy_User = 0"
definition Policy_Compositor :: u32 where "Policy_Compositor = 1"

definition IsValidServiceAccess :: "u32 \<Rightarrow> u32 \<Rightarrow> bool" where
  "IsValidServiceAccess permission policy =
     (if permission = Permission_User then policy = Policy_User
      else if permission = Permission_System \<or> permission = Permission_Manager
      then policy = Policy_User \<or> policy = Policy_Compositor
      else False)"

text \<open>\<open>detail::GetDisplayServiceImpl\<close>; the second argument is the policy popped.\<close>

definition GetDisplayServiceImpl :: "u32 \<Rightarrow> u32 \<Rightarrow> IpcResponse" where
  "GetDisplayServiceImpl permission policy =
     (if \<not> IsValidServiceAccess permission policy
      then \<lparr>result = ERR_PERMISSION_DENIED, pushed = [], interfaces = []\<rparr>
      else \<lparr>result = RESULT_SUCCESS, pushed = [],
            interfaces = [IApplicationDisplayService]\<rparr>)"

section \<open>IApplicationDisplayService\<close>

text \<open>\<open>enum class NintendoScaleMode : u32\<close>, as its underlying values.\<close>

definition NintendoScaleMode_None :: u32 where "NintendoScaleMode_None = 0"
definition NintendoScaleMode_Freeze :: u32 where "NintendoScaleMode_Freeze = 1"
definition NintendoScaleMode_ScaleToWindow :: u32 where "NintendoScaleMode_ScaleToWindow = 2"
definition NintendoScaleMode_ScaleAndCrop :: u32 where "NintendoScaleMode_ScaleAndCrop = 3"
definition NintendoScaleMode_PreserveAspectRatio :: u32 where
  "NintendoScaleMode_PreserveAspectRatio = 4"

text \<open>
  \<open>SetLayerScalingMode\<close>; the arguments are the two values popped from the request.
\<close>

definition SetLayerScalingMode :: "u32 \<Rightarrow> u64 \<Rightarrow> IpcResponse" where
  "SetLayerScalingMode scaling_mode unknown =
     (if scaling_mode > NintendoScaleMode_PreserveAspectRatio
      then \<lparr>result = ERR_OPERATION_FAILED, pushed = [], interfaces = []\<rparr>
      else if scaling_mode \<noteq> NintendoScaleMode_ScaleToWindow \<and>
              scaling_mode \<noteq> NintendoScaleMode_PreserveAspectRatio
      then \<lparr>result = ERR_UNSUPPORTED, pushed = [], interfaces = []\<rparr>
      else \<lparr>result = RESULT_SUCCESS, pushed = [], interfaces = []\<rparr>)"

text \<open>
  \<open>OpenDisplayImpl\<close>. The name is cut at its first NUL character, then asserted to be
  \<open>Default\<close>. \<open>nv_flinger->OpenDisplay\<close> is not among the sources: the registry's answer
  for a name is the first argument (\<open>None\<close> for \<open>std::nullopt\<close>); what the call does to
  the registry is not modelled.
\<close>

definition OpenDisplayImpl :: "(string \<Rightarrow> u64 option) \<Rightarrow> string \<Rightarrow> error + IpcResponse" where
  "OpenDisplayImpl OpenDisplay name =
     (let name1 = takeWhile (\<lambda>c. c \<noteq> CHR 0x00) name
      in if name1 \<noteq> ''Default''
         then Inl (AssertFailed ''Non-default displays aren't supported yet'')
         else (case OpenDisplay name1 of
                 None \<Rightarrow> Inr \<lparr>result = ERR_NOT_FOUND, pushed = [], interfaces = []\<rparr>
               | Some display_id \<Rightarrow>
                   Inr \<lparr>result = RESULT_SUCCESS, pushed = [display_id], interfaces = []\<rparr>))"

text \<open>\<open>OpenDisplay\<close> pops a 0x40-byte name; \<open>OpenDefaultDisplay\<close> passes the literal.\<close>

definition OpenDefaultDisplay :: "(string \<Rightarrow> u64 option) \<Rightarrow> error + IpcResponse" where
  "OpenDefaultDisplay OpenDisplay = OpenDisplayImpl OpenDisplay ''Default''"

section \<open>NVFlinger: the buffer queue and the registry\<close>

text \<open>
  Modelled from the spec: \<open>core/hle/service/nvflinger/buffer_queue.h\<close>, \<open>nvflinger.h\<close>
  and \<open>nvdrv/nvdata.h\<close> are not among the sources; \<open>TransactParcel\<close> calls them. The
  definitions of this section follow the spec's sections 3, 4.3 and 4.4.

  A slot has a lifecycle state, an optional bound buffer descriptor, a fence and the
  presentation metadata recorded by \<open>QueueBuffer\<close>. The descriptor
  (\<open>NVFlinger::IGBPBuffer\<close>) and the fence (\<open>Service::Nvidia::MultiFence\<close>) are carried as
  their bytes, which is all the parcels do with them. A queue is its array of slots, in
  index order; the registry maps a queue id to its queue.
\<close>

datatype Status = Free | Dequeued | Queued | Acquired

record Rectangle =
  rect_left :: u32
  rect_top :: u32
  rect_right :: u32
  rect_bottom :: u32

record BufferSlot =
  status :: Status
  igbp_buffer :: "u8 list option"
  multi_fence :: "u8 list"
  transform :: u32
  crop_rect :: Rectangle
  swap_interval :: u32

type_synonym BufferQueue = "BufferSlot list"

type_synonym NVFlinger = "u32 \<Rightarrow> BufferQueue option"

text \<open>
  What the sources leave open and the spec does not fix, taken as parameters: the size
  of \<open>IGBPBuffer\<close> and where its width and height are, the value \<open>Query\<close> returns, and
  the two sizes of the Connect response, which the source computes in floating point
  (\<open>UndockedWidth * Settings::values.resolution_factor\<close>, converted to \<open>u32\<close>).
\<close>

record Externals =
  sizeof_IGBPBuffer :: nat
  igbp_width :: "u8 list \<Rightarrow> u32"
  igbp_height :: "u8 list \<Rightarrow> u32"
  query_value :: "BufferQueue \<Rightarrow> u32 \<Rightarrow> u32"
  connect_width :: u32
  connect_height :: u32

text \<open>
  \<open>sizeof(MultiFence)\<close>: the source's \<open>static_assert(sizeof(Data) == 96)\<close> on the
  QueueBuffer request leaves 36 bytes for it after fifteen 32-bit words.
\<close>

definition sizeof_MultiFence :: nat where
  "sizeof_MultiFence = 36"

text \<open>
  Modelled from the spec: \<open>find_buffer_queue\<close> is a direct handle lookup; a missing id is
  a fatal internal defect.
\<close>

definition FindBufferQueue :: "NVFlinger \<Rightarrow> u32 \<Rightarrow> error + BufferQueue" where
  "FindBufferQueue nv_flinger qid =
     (case nv_flinger qid of None \<Rightarrow> Inl FatalDefect | Some q \<Rightarrow> Inr q)"

text \<open>
  Modelled from the spec: \<open>SetPreallocatedBuffer(slot, descriptor)\<close> binds the descriptor
  to the slot whatever its state. The spec says nothing of a slot index past the
  capacity; the queue is left as it is there.
\<close>

definition SetPreallocatedBuffer :: "u32 \<Rightarrow> u8 list \<Rightarrow> BufferQueue \<Rightarrow> BufferQueue" where
  "SetPreallocatedBuffer slot descriptor q =
     (if unat slot < length q
      then q[unat slot := (q ! unat slot)\<lparr>igbp_buffer := Some descriptor\<rparr>]
      else q)"

text \<open>
  Modelled from the spec: \<open>DequeueBuffer(width, height)\<close> scans the slots in index order
  for the first FREE slot whose bound descriptor satisfies the requested dimensions
  (unconstrained if no dimensions are requested, read here as both being 0); on a match
  the slot goes FREE to DEQUEUED and the slot index and its fence are returned; with no
  eligible slot the result is none.
\<close>

definition eligible :: "Externals \<Rightarrow> u32 \<Rightarrow> u32 \<Rightarrow> BufferSlot \<Rightarrow> bool" where
  "eligible ext width height s =
     (status s = Free \<and>
      (case igbp_buffer s of
         None \<Rightarrow> False
       | Some d \<Rightarrow>
           (width = 0 \<and> height = 0) \<or>
           (igbp_width ext d = width \<and> igbp_height ext d = height)))"

text \<open>
  Modelled from the spec: the scan of the slots in index order, from index \<open>i\<close> on.
\<close>

fun first_eligible :: "Externals \<Rightarrow> u32 \<Rightarrow> u32 \<Rightarrow> BufferSlot list \<Rightarrow> nat \<Rightarrow> nat option" where
  "first_eligible ext width height [] i = None"
| "first_eligible ext width height (s # ss) i =
     (if eligible ext width height s then Some i
      else first_eligible ext width height ss (Suc i))"

text \<open>
  Modelled from the spec: the first eligible slot becomes DEQUEUED; the result is its
  index and fence, with the queue after the transition, or none.
\<close>

definition DequeueBuffer ::
  "Externals \<Rightarrow> u32 \<Rightarrow> u32 \<Rightarrow> BufferQueue \<Rightarrow> ((u32 \<times> u8 list) \<times> BufferQueue) option" where
  "DequeueBuffer ext width height q =
     (case first_eligible ext width height q 0 of
        None \<Rightarrow> None
      | Some i \<Rightarrow>
          Some ((of_nat i, multi_fence (q ! i)), q[i := (q ! i)\<lparr>status := Dequeued\<rparr>]))"

text \<open>
  Modelled from the spec: \<open>RequestBuffer(slot)\<close> returns the descriptor bound to the
  slot and fails NotFound if the slot has none.
\<close>

definition RequestBuffer :: "u32 \<Rightarrow> BufferQueue \<Rightarrow> error + u8 list" where
  "RequestBuffer slot q =
     (if unat slot < length q
      then (case igbp_buffer (q ! unat slot) of None \<Rightarrow> Inl NotFound | Some d \<Rightarrow> Inr d)
      else Inl NotFound)"

text \<open>
  Modelled from the spec: \<open>QueueBuffer(slot, transform, crop_rect, swap_interval, fence)\<close>
  requires the slot in DEQUEUED state, else fails InvalidState; it records the
  presentation metadata and the slot goes DEQUEUED to QUEUED.
\<close>

definition QueueBuffer ::
  "u32 \<Rightarrow> u32 \<Rightarrow> Rectangle \<Rightarrow> u32 \<Rightarrow> u8 list \<Rightarrow> BufferQueue \<Rightarrow> error + BufferQueue" where
  "QueueBuffer slot tr crop interval fence q =
     (if unat slot < length q \<and> status (q ! unat slot) = Dequeued
      then Inr (q[unat slot := (q ! unat slot)
                  \<lparr>status := Queued, multi_fence := fence, transform := tr,
                   crop_rect := crop, swap_interval := interval\<rparr>])
      else Inl InvalidState)"

text \<open>
  Modelled from the spec: the pending-buffer count of a queue, which the spec has
  \<open>QueueBuffer\<close> report, is the number of slots that are queued and not yet acquired.
\<close>

definition num_pending :: "BufferQueue \<Rightarrow> nat" where
  "num_pending q = length (filter (\<lambda>s. status s = Queued) q)"

section \<open>The request and response parcels\<close>

text \<open>
  A request parcel is built from the bytes the guest sent and deserialized in its
  constructor; every \<open>DeserializeData\<close> reads the interface token and then its data.
  The fields are cut out of the data at the offsets of the source's structs; the signed
  fields (\<open>s32_le\<close>) are kept as their 32 bits. A field name that several structs share
  takes a prefix here (\<open>qb_slot\<close>, \<open>spb_slot\<close>), since record fields are global names.
\<close>

definition field32 :: "nat \<Rightarrow> u8 list \<Rightarrow> u32" where
  "field32 off data = u32_from_le (slice off 4 data)"

record ConnectRequest =
  connect_unk :: u32
  connect_api :: u32
  producer_controlled_by_app :: u32

definition IGBPConnectRequestParcel :: "u8 list \<Rightarrow> error + ConnectRequest" where
  "IGBPConnectRequestParcel buf =
     Deserialize
       (\<lambda>p. case ReadInterfaceToken p of
               Inl e \<Rightarrow> Inl e
             | Inr (token, p1) \<Rightarrow>
                 (case Read 12 p1 of
                    Inl e \<Rightarrow> Inl e
                  | Inr (data, p2) \<Rightarrow>
                      Inr \<lparr>connect_unk = field32 0 data, connect_api = field32 4 data,
                           producer_controlled_by_app = field32 8 data\<rparr>))
       (Parcel_of buf)"

record SetPreallocatedBufferRequest =
  spb_slot :: u32
  graphic_buffer_length :: u32
  spb_buffer :: "u8 list"

definition IGBPSetPreallocatedBufferRequestParcel ::
  "Externals \<Rightarrow> u8 list \<Rightarrow> error + SetPreallocatedBufferRequest" where
  "IGBPSetPreallocatedBufferRequestParcel ext buf =
     Deserialize
       (\<lambda>p. case ReadInterfaceToken p of
               Inl e \<Rightarrow> Inl e
             | Inr (token, p1) \<Rightarrow>
                 (case Read 16 p1 of
                    Inl e \<Rightarrow> Inl e
                  | Inr (data, p2) \<Rightarrow>
                      (case Read (sizeof_IGBPBuffer ext) p2 of
                         Inl e \<Rightarrow> Inl e
                       | Inr (b, p3) \<Rightarrow>
                           Inr \<lparr>spb_slot = field32 0 data,
                                graphic_buffer_length = field32 8 data, spb_buffer = b\<rparr>)))
       (Parcel_of buf)"

record DequeueBufferRequest =
  pixel_format :: u32
  width :: u32
  height :: u32
  get_frame_timestamps :: u32
  usage :: u32

definition IGBPDequeueBufferRequestParcel :: "u8 list \<Rightarrow> error + DequeueBufferRequest" where
  "IGBPDequeueBufferRequestParcel buf =
     Deserialize
       (\<lambda>p. case ReadInterfaceToken p of
               Inl e \<Rightarrow> Inl e
             | Inr (token, p1) \<Rightarrow>
                 (case Read 20 p1 of
                    Inl e \<Rightarrow> Inl e
                  | Inr (data, p2) \<Rightarrow>
                      Inr \<lparr>pixel_format = field32 0 data, width = field32 4 data,
                           height = field32 8 data, get_frame_timestamps = field32 12 data,
                           usage = field32 16 data\<rparr>))
       (Parcel_of buf)"

definition IGBPRequestBufferRequestParcel :: "u8 list \<Rightarrow> error + u32" where
  "IGBPRequestBufferRequestParcel buf =
     Deserialize
       (\<lambda>p. case ReadInterfaceToken p of
               Inl e \<Rightarrow> Inl e
             | Inr (token, p1) \<Rightarrow>
                 (case Read 4 p1 of
                    Inl e \<Rightarrow> Inl e
                  | Inr (slot, p2) \<Rightarrow> Inr (u32_from_le slot)))
       (Parcel_of buf)"

record QueueBufferRequest =
  qb_slot :: u32
  timestamp :: u32
  is_auto_timestamp :: u32
  crop_top :: u32
  crop_left :: u32
  crop_right :: u32
  crop_bottom :: u32
  scaling_mode :: u32
  qb_transform :: u32
  sticky_transform :: u32
  qb_swap_interval :: u32
  qb_multi_fence :: "u8 list"

definition GetCropRect :: "QueueBufferRequest \<Rightarrow> Rectangle" where
  "GetCropRect d =
     \<lparr>rect_left = crop_left d, rect_top = crop_top d,
      rect_right = crop_right d, rect_bottom = crop_bottom d\<rparr>"

definition IGBPQueueBufferRequestParcel :: "u8 list \<Rightarrow> error + QueueBufferRequest" where
  "IGBPQueueBufferRequestParcel buf =
     Deserialize
       (\<lambda>p. case ReadInterfaceToken p of
               Inl e \<Rightarrow> Inl e
             | Inr (token, p1) \<Rightarrow>
                 (case Read 96 p1 of
                    Inl e \<Rightarrow> Inl e
                  | Inr (data, p2) \<Rightarrow>
                      Inr \<lparr>qb_slot = field32 0 data, timestamp = field32 16 data,
                           is_auto_timestamp = field32 20 data, crop_top = field32 24 data,
                           crop_left = field32 28 data, crop_right = field32 32 data,
                           crop_bottom = field32 36 data, scaling_mode = field32 40 data,
                           qb_transform = field32 44 data, sticky_transform = field32 48 data,
                           qb_swap_interval = field32 56 data,
                           qb_multi_fence = slice 60 sizeof_MultiFence data\<rparr>))
       (Parcel_of buf)"

definition IGBPQueryRequestParcel :: "u8 list \<Rightarrow> error + u32" where
  "IGBPQueryRequestParcel buf =
     Deserialize
       (\<lambda>p. case ReadInterfaceToken p of
               Inl e \<Rightarrow> Inl e
             | Inr (token, p1) \<Rightarrow>
                 (case Read 4 p1 of
                    Inl e \<Rightarrow> Inl e
                  | Inr (ty, p2) \<Rightarrow> Inr (u32_from_le ty)))
       (Parcel_of buf)"

text \<open>
  A response parcel is built by \<open>Parcel()\<close> and serialized; the definitions are the
  \<open>SerializeData\<close> of each class applied through \<open>Serialize\<close>. The \<open>Data\<close> of the Connect
  and QueueBuffer responses is five words: width, height, \<open>transform_hint\<close>,
  \<open>num_pending_buffers\<close> and \<open>status\<close>, the last three left at their initial 0.
\<close>

definition IGBPConnectResponseParcel :: "u32 \<Rightarrow> u32 \<Rightarrow> error + u8 list" where
  "IGBPConnectResponseParcel w h =
     Serialize
       (Write (u32_to_le w @ u32_to_le h @ u32_to_le 0 @ u32_to_le 0 @ u32_to_le 0))
       Parcel_default"

definition IGBPEmptyResponseParcel :: "error + u8 list" where
  "IGBPEmptyResponseParcel = Serialize (Write (u32_to_le 0)) Parcel_default"

definition IGBPSetPreallocatedBufferResponseParcel :: "error + u8 list" where
  "IGBPSetPreallocatedBufferResponseParcel = Serialize (Write (u32_to_le 0)) Parcel_default"

definition IGBPDequeueBufferResponseParcel :: "u32 \<Rightarrow> u8 list \<Rightarrow> error + u8 list" where
  "IGBPDequeueBufferResponseParcel slot fence =
     Serialize
       (\<lambda>p. case Write (u32_to_le slot) p of
               Inl e \<Rightarrow> Inl e
             | Inr p1 \<Rightarrow>
                 (case Write (u32_to_le 1) p1 of
                    Inl e \<Rightarrow> Inl e
                  | Inr p2 \<Rightarrow>
                      (case WriteObject fence p2 of
                         Inl e \<Rightarrow> Inl e
                       | Inr p3 \<Rightarrow> Write (u32_to_le 0) p3)))
       Parcel_default"

definition IGBPRequestBufferResponseParcel :: "u8 list \<Rightarrow> error + u8 list" where
  "IGBPRequestBufferResponseParcel b =
     Serialize
       (\<lambda>p. case Write (u32_to_le 1) p of
               Inl e \<Rightarrow> Inl e
             | Inr p1 \<Rightarrow>
                 (case WriteObject b p1 of
                    Inl e \<Rightarrow> Inl e
                  | Inr p2 \<Rightarrow> Write (u32_to_le 0) p2))
       Parcel_default"

definition IGBPQueueBufferResponseParcel :: "u32 \<Rightarrow> u32 \<Rightarrow> error + u8 list" where
  "IGBPQueueBufferResponseParcel w h =
     Serialize
       (Write (u32_to_le w @ u32_to_le h @ u32_to_le 0 @ u32_to_le 0 @ u32_to_le 0))
       Parcel_default"

definition IGBPQueryResponseParcel :: "u32 \<Rightarrow> error + u8 list" where
  "IGBPQueryResponseParcel v = Serialize (Write (u32_to_le v)) Parcel_default"

section \<open>IHOSBinderDriver::TransactParcel\<close>

text \<open>\<open>enum class TransactionId\<close>, as the values popped from the request.\<close>

definition TransactionId_RequestBuffer :: u32 where "TransactionId_RequestBuffer = 1"
definition TransactionId_SetBufferCount :: u32 where "TransactionId_SetBufferCount = 2"
definition TransactionId_DequeueBuffer :: u32 where "TransactionId_DequeueBuffer = 3"
definition TransactionId_DetachBuffer :: u32 where "TransactionId_DetachBuffer = 4"
definition TransactionId_DetachNextBuffer :: u32 where "TransactionId_DetachNextBuffer = 5"
definition TransactionId_AttachBuffer :: u32 where "TransactionId_AttachBuffer = 6"
definition TransactionId_QueueBuffer :: u32 where "TransactionId_QueueBuffer = 7"
definition TransactionId_CancelBuffer :: u32 where "TransactionId_CancelBuffer = 8"
definition TransactionId_Query :: u32 where "TransactionId_Query = 9"
definition TransactionId_Connect :: u32 where "TransactionId_Connect = 10"
definition TransactionId_Disconnect :: u32 where "TransactionId_Disconnect = 11"
definition TransactionId_AllocateBuffers :: u32 where "TransactionId_AllocateBuffers = 13"
definition TransactionId_SetPreallocatedBuffer :: u32 where
  "TransactionId_SetPreallocatedBuffer = 14"

text \<open>
  What a handler leaves in the \<open>Kernel::HLERequestContext\<close>: the buffer given to
  \<open>ctx.WriteBuffer\<close>, the response built with \<open>IPC::ResponseBuilder\<close>, and, when
  \<open>ctx.SleepClientThread\<close> was called, the values its wake-up callback captured
  (\<open>[=]\<close>: the queue id, the width and the height). The thread then waits, with no
  timeout, on the queue's \<open>GetWritableBufferWaitEvent()\<close>.
\<close>

record Context =
  written :: "u8 list option"
  response :: "IpcResponse option"
  sleeping :: "(u32 \<times> u32 \<times> u32) option"

definition success :: IpcResponse where
  "success = \<lparr>result = RESULT_SUCCESS, pushed = [], interfaces = []\<rparr>"

text \<open>
  The callback given to \<open>SleepClientThread\<close> by the DequeueBuffer branch, run when the
  thread is woken: it looks the queue up again and repeats the dequeue with the captured
  width and height, asserts that a buffer was found, writes the response and pushes
  \<open>RESULT_SUCCESS\<close>.
\<close>

definition DequeueBuffer_wakeup ::
  "Externals \<Rightarrow> NVFlinger \<Rightarrow> u32 \<Rightarrow> u32 \<Rightarrow> u32 \<Rightarrow> error + (Context \<times> NVFlinger)" where
  "DequeueBuffer_wakeup ext nv_flinger qid w h =
     (case FindBufferQueue nv_flinger qid of
        Inl e \<Rightarrow> Inl e
      | Inr buffer_queue \<Rightarrow>
          (case DequeueBuffer ext w h buffer_queue of
             None \<Rightarrow> Inl (AssertFailed ''Could not dequeue buffer.'')
           | Some ((slot, fence), q') \<Rightarrow>
               (case IGBPDequeueBufferResponseParcel slot fence of
                  Inl e \<Rightarrow> Inl e
                | Inr out \<Rightarrow>
                    Inr (\<lparr>written = Some out, response = Some success, sleeping = None\<rparr>,
                         nv_flinger(qid \<mapsto> q')))))"

text \<open>
  \<open>TransactParcel\<close>. The arguments after the registry are the three words popped from
  the request (\<open>id\<close>, transaction, flags) and \<open>ctx.ReadBuffer()\<close>. Every branch that
  returns falls through to the final \<open>rb.Push(RESULT_SUCCESS)\<close>, the sleeping one too.
\<close>

definition TransactParcel ::
  "Externals \<Rightarrow> NVFlinger \<Rightarrow> u32 \<Rightarrow> u32 \<Rightarrow> u32 \<Rightarrow> u8 list \<Rightarrow>
     error + (Context \<times> NVFlinger)" where
  "TransactParcel ext nv_flinger qid transaction flags read_buffer =
     (case FindBufferQueue nv_flinger qid of
        Inl e \<Rightarrow> Inl e
      | Inr buffer_queue \<Rightarrow>
          if transaction = TransactionId_Connect then
            (case IGBPConnectRequestParcel read_buffer of
               Inl e \<Rightarrow> Inl e
             | Inr request \<Rightarrow>
                 (case IGBPConnectResponseParcel (connect_width ext) (connect_height ext) of
                    Inl e \<Rightarrow> Inl e
                  | Inr out \<Rightarrow>
                      Inr (\<lparr>written = Some out, response = Some success, sleeping = None\<rparr>,
                           nv_flinger)))
          else if transaction = TransactionId_SetPreallocatedBuffer then
            (case IGBPSetPreallocatedBufferRequestParcel ext read_buffer of
               Inl e \<Rightarrow> Inl e
             | Inr request \<Rightarrow>
                 (case IGBPSetPreallocatedBufferResponseParcel of
                    Inl e \<Rightarrow> Inl e
                  | Inr out \<Rightarrow>
                      Inr (\<lparr>written = Some out, response = Some success, sleeping = None\<rparr>,
                           nv_flinger(qid \<mapsto>
                             SetPreallocatedBuffer (spb_slot request) (spb_buffer request)
                               buffer_queue))))
          else if transaction = TransactionId_DequeueBuffer then
            (case IGBPDequeueBufferRequestParcel read_buffer of
               Inl e \<Rightarrow> Inl e
             | Inr request \<Rightarrow>
                 (case DequeueBuffer ext (width request) (height request) buffer_queue of
                    Some ((slot, fence), q') \<Rightarrow>
                      (case IGBPDequeueBufferResponseParcel slot fence of
                         Inl e \<Rightarrow> Inl e
                       | Inr out \<Rightarrow>
                           Inr (\<lparr>written = Some out, response = Some success,
                                 sleeping = None\<rparr>,
                                nv_flinger(qid \<mapsto> q')))
                  | None \<Rightarrow>
                      Inr (\<lparr>written = None, response = Some success,
                            sleeping = Some (qid, width request, height request)\<rparr>,
                           nv_flinger)))
          else if transaction = TransactionId_RequestBuffer then
            (case IGBPRequestBufferRequestParcel read_buffer of
               Inl e \<Rightarrow> Inl e
             | Inr slot \<Rightarrow>
                 (case RequestBuffer slot buffer_queue of
                    Inl e \<Rightarrow> Inl e
                  | Inr b \<Rightarrow>
                      (case IGBPRequestBufferResponseParcel b of
                         Inl e \<Rightarrow> Inl e
                       | Inr out \<Rightarrow>
                           Inr (\<lparr>written = Some out, response = Some success,
                                 sleeping = None\<rparr>,
                                nv_flinger))))
          else if transaction = TransactionId_QueueBuffer then
            (case IGBPQueueBufferRequestParcel read_buffer of
               Inl e \<Rightarrow> Inl e
             | Inr request \<Rightarrow>
                 (case QueueBuffer (qb_slot request) (qb_transform request)
                         (GetCropRect request) (qb_swap_interval request)
                         (qb_multi_fence request) buffer_queue of
                    Inl e \<Rightarrow> Inl e
                  | Inr q' \<Rightarrow>
                      (case IGBPQueueBufferResponseParcel 1280 720 of
                         Inl e \<Rightarrow> Inl e
                       | Inr out \<Rightarrow>
                           Inr (\<lparr>written = Some out, response = Some success,
                                 sleeping = None\<rparr>,
                                nv_flinger(qid \<mapsto> q')))))
          else if transaction = TransactionId_Query then
            (case IGBPQueryRequestParcel read_buffer of
               Inl e \<Rightarrow> Inl e
             | Inr ty \<Rightarrow>
                 (case IGBPQueryResponseParcel (query_value ext buffer_queue ty) of
                    Inl e \<Rightarrow> Inl e
                  | Inr out \<Rightarrow>
                      Inr (\<lparr>written = Some out, response = Some success, sleeping = None\<rparr>,
                           nv_flinger)))
          else if transaction = TransactionId_CancelBuffer then
            Inr (\<lparr>written = None, response = Some success, sleeping = None\<rparr>, nv_flinger)
          else if transaction = TransactionId_Disconnect \<or>
                  transaction = TransactionId_DetachBuffer then
            (case IGBPEmptyResponseParcel of
               Inl e \<Rightarrow> Inl e
             | Inr out \<Rightarrow>
                 Inr (\<lparr>written = Some out, response = Some success, sleeping = None\<rparr>,
                      nv_flinger))
          else Inl (AssertFailed ''Unimplemented''))"

section \<open>Example inputs\<close>

text \<open>
  Concrete inputs for the evaluations below: the parameters with a 0x16C-byte descriptor
  whose width and height are its second and third words; a free slot bound to a
  1280 by 720 descriptor and a dequeued slot; registries with the queue 1 of capacity
  one; and request parcels with a header, an interface token of one code unit and the
  data of the transaction.
\<close>

definition example_ext :: Externals where
  "example_ext =
     \<lparr>sizeof_IGBPBuffer = 0x16C, igbp_width = field32 4, igbp_height = field32 8,
      query_value = (\<lambda>q ty. 0), connect_width = 1280, connect_height = 720\<rparr>"

definition example_descriptor :: "u8 list" where
  "example_descriptor = u32_to_le 0 @ u32_to_le 1280 @ u32_to_le 720 @ replicate 352 0"

definition free_slot :: BufferSlot where
  "free_slot =
     \<lparr>status = Free, igbp_buffer = Some example_descriptor,
      multi_fence = replicate 36 0, transform = 0,
      crop_rect = \<lparr>rect_left = 0, rect_top = 0, rect_right = 0, rect_bottom = 0\<rparr>,
      swap_interval = 0\<rparr>"

definition dequeued_slot :: BufferSlot where
  "dequeued_slot = free_slot\<lparr>status := Dequeued\<rparr>"

definition example_free :: NVFlinger where
  "example_free = Map.empty(1 \<mapsto> [free_slot])"

definition example_dequeued :: NVFlinger where
  "example_dequeued = Map.empty(1 \<mapsto> [dequeued_slot])"

definition example_request :: "u8 list \<Rightarrow> u8 list" where
  "example_request data =
     u32_to_le (of_nat (12 + length data)) @ u32_to_le 16 @ u32_to_le 4 @
     u32_to_le (of_nat (28 + length data)) @
     u32_to_le 0 @ u32_to_le 0 @ [0, 0, 0, 0] @ data"

definition dequeue_request :: "u8 list" where
  "dequeue_request =
     example_request (u32_to_le 1 @ u32_to_le 1280 @ u32_to_le 720 @ u32_to_le 0 @ u32_to_le 0)"

definition queue_request :: "u8 list" where
  "queue_request = example_request (u32_to_le 0 @ replicate 92 0)"

definition query_request :: "u8 list" where
  "query_request = example_request (u32_to_le 2)"

text \<open>
  The bytes \<open>TransactParcel\<close> writes back for QueueBuffer: the header, then the five
  words of \<open>IGBPQueueBufferResponseParcel{1280, 720}\<close>, then what is left of the 0x40
  bytes of \<open>Parcel()\<close>.
\<close>

definition QueueBuffer_response :: "u8 list" where
  "QueueBuffer_response =
     [20,0,0,0, 16,0,0,0, 4,0,0,0, 36,0,0,0,
      0,5,0,0, 208,2,0,0, 0,0,0,0, 0,0,0,0, 0,0,0,0] @ replicate 28 0"

section \<open>Facts about the codec\<close>

lemma AlignUp_4_eq: "AlignUp v 4 = (if v mod 4 = 0 then v else 4 * (v div 4) + 4)"
  by (simp add: AlignUp_def minus_mod_eq_mult_div)

lemma AlignUp_4_mod: "AlignUp v 4 mod 4 = 0"
  by (simp add: AlignUp_4_eq)

lemma AlignUp_4_bounds: "v \<le> AlignUp v 4 \<and> AlignUp v 4 \<le> v + 3"
proof (cases "v mod 4 = 0")
  case True
  then show ?thesis by (simp add: AlignUp_4_eq)
next
  case False
  have e: "4 * (v div 4) + v mod 4 = v" by (rule mult_div_mod_eq)
  have "v mod 4 < 4" by simp
  with False e have "v \<le> 4 * (v div 4) + 4 \<and> 4 * (v div 4) + 4 \<le> v + 3" by linarith
  with False show ?thesis by (simp add: AlignUp_4_eq)
qed

lemma AlignUp_4_add: "a mod 4 = 0 \<Longrightarrow> AlignUp (a + n) 4 = a + AlignUp n 4"
proof -
  assume a: "a mod 4 = 0"
  then obtain k where k: "a = 4 * k" by (metis mod_0_imp_dvd dvd_def)
  show ?thesis unfolding AlignUp_4_eq k by simp
qed

lemma length_le_encode: "length (le_encode k n) = k"
  by (induction k arbitrary: n) auto

lemma le_decode_encode: "le_decode (le_encode k n) = n mod 256 ^ k"
proof (induction k arbitrary: n)
  case 0
  show ?case by simp
next
  case (Suc k)
  have "unat (of_nat (n mod 256) :: u8) = n mod 256"
    by (simp add: unat_of_nat)
  then show ?case
    using Suc[of "n div 256"] by (simp add: mod_mult2_eq)
qed

lemma length_u32_to_le: "length (u32_to_le w) = 4"
  by (simp add: u32_to_le_def length_le_encode del: le_encode.simps)

lemma u32_from_to_le: "u32_from_le (u32_to_le w) = w"
proof -
  have "unat w < 2 ^ 32" using unsigned_less[of w] by simp
  then have "unat w mod 256 ^ 4 = unat w" by simp
  then show ?thesis
    by (simp add: u32_from_le_def u32_to_le_def le_decode_encode del: le_encode.simps)
qed

lemma le_encode_4: "le_encode 4 n = [of_nat (n mod 256), of_nat (n div 256 mod 256), of_nat (n div 256 div 256 mod 256), of_nat (n div 256 div 256 div 256 mod 256)]"
proof -
  have "(4::nat) = Suc (Suc (Suc (Suc 0)))" by simp
  then show ?thesis by (simp only: le_encode.simps)
qed

lemma Write_ok:
  assumes "write_index p \<le> length (buffer p) + DefaultBufferSize"
  shows "\<exists>buf'. Write val p =
            Inr (p\<lparr>buffer := buf', write_index := AlignUp (write_index p + length val) 4\<rparr>) \<and>
          length (buffer p) \<le> length buf' \<and> write_index p + length val \<le> length buf'"
  using assms by (auto simp: Write_def memcpy_to_def Let_def)

lemma WriteAll_ok:
  assumes "write_index p \<le> length (buffer p) + 3" and "write_index p mod 4 = 0"
  shows "\<exists>buf'. WriteAll vs p =
            Inr (p\<lparr>buffer := buf', write_index := write_index p + data_bytes vs\<rparr>) \<and>
          length (buffer p) \<le> length buf'"
  using assms
proof (induction vs arbitrary: p)
  case Nil
  have "p\<lparr>buffer := buffer p, write_index := write_index p\<rparr> = p" by simp
  then show ?case by (auto simp: data_bytes_def intro!: exI[of _ "buffer p"])
next
  case (Cons v vs)
  from Cons.prems have "write_index p \<le> length (buffer p) + DefaultBufferSize"
    by (simp add: DefaultBufferSize_def)
  from Write_ok[OF this, of v] obtain b1 where
    w: "Write v p = Inr (p\<lparr>buffer := b1, write_index := AlignUp (write_index p + length v) 4\<rparr>)"
    and l1: "length (buffer p) \<le> length b1" and l2: "write_index p + length v \<le> length b1"
    by blast
  let ?p1 = "p\<lparr>buffer := b1, write_index := AlignUp (write_index p + length v) 4\<rparr>"
  have a: "write_index ?p1 \<le> length (buffer ?p1) + 3"
    using AlignUp_4_bounds[of "write_index p + length v"] l2 by simp
  have b: "write_index ?p1 mod 4 = 0" by (simp add: AlignUp_4_mod)
  from Cons.IH[OF a b] obtain b2 where
    r: "WriteAll vs ?p1 = Inr (?p1\<lparr>buffer := b2, write_index := write_index ?p1 + data_bytes vs\<rparr>)"
    and l3: "length (buffer ?p1) \<le> length b2" by blast
  have "write_index ?p1 + data_bytes vs = write_index p + data_bytes (v # vs)"
    using Cons.prems(2) by (simp add: data_bytes_def AlignUp_4_add)
  with w r l1 l3 show ?case by (auto intro!: exI[of _ b2])
qed

lemma length_Header_to_bytes: "length (Header_to_bytes h) = 16"
  by (simp add: Header_to_bytes_def length_u32_to_le)

lemma Header_from_to_bytes: "Header_from_bytes (Header_to_bytes h @ rest) = h"
  by (simp add: Header_from_bytes_def Header_to_bytes_def slice_def length_u32_to_le u32_from_to_le)

lemma Serialize_Query_example:
  "Serialize (WriteAll [u32_to_le 7]) Parcel_default =
     Inr ([4,0,0,0, 16,0,0,0, 4,0,0,0, 20,0,0,0, 7,0,0,0] @ replicate 44 0)"
  by code_simp

lemma u32_le_4_cases:
  fixes m :: u32
  shows "(m \<le> 4) = (m = 0 \<or> m = 1 \<or> m = 2 \<or> m = 3 \<or> m = 4)"
proof
  assume "m \<le> 4"
  then have "unat m \<le> 4" by (simp add: word_le_nat_alt)
  then have "unat m = 0 \<or> unat m = 1 \<or> unat m = 2 \<or> unat m = 3 \<or> unat m = 4" by linarith
  then show "m = 0 \<or> m = 1 \<or> m = 2 \<or> m = 3 \<or> m = 4"
    by (simp add: word_unat_eq_iff)
next
  show "m = 0 \<or> m = 1 \<or> m = 2 \<or> m = 3 \<or> m = 4 \<Longrightarrow> m \<le> 4" by auto
qed

section \<open>Facts about the responses and the queue\<close>

lemma Serialize_WriteAll_ok:
  assumes "read_index p = 0" and "sizeof_Header \<le> length (buffer p)"
  shows "\<exists>out. Serialize (WriteAll vs) p = Inr out"
proof -
  let ?p0 = "p\<lparr>write_index := sizeof_Header\<rparr>"
  have a: "write_index ?p0 \<le> length (buffer ?p0) + 3" using assms(2) by simp
  have b: "write_index ?p0 mod 4 = 0" by (simp add: sizeof_Header_def)
  from WriteAll_ok[OF a b, of vs] obtain b1 where
    w: "WriteAll vs ?p0 = Inr (?p0\<lparr>buffer := b1, write_index := write_index ?p0 + data_bytes vs\<rparr>)"
    and l: "length (buffer ?p0) \<le> length b1" by blast
  have "16 \<le> length b1" using l assms(2) by (simp add: sizeof_Header_def)
  then show ?thesis using assms(1) w
    by (simp add: Serialize_def Let_def memcpy_to_def length_Header_to_bytes sizeof_Header_def)
qed

lemma Parcel_default_ready:
  "read_index Parcel_default = 0" "sizeof_Header \<le> length (buffer Parcel_default)"
  by (simp_all add: Parcel_default_def sizeof_Header_def DefaultBufferSize_def)

lemma WriteObject_WriteAll:
  "WriteObject val p = WriteAll [u32_to_le (of_nat (length val)), u32_to_le 0, val] p"
  by (simp add: WriteObject_def split: sum.splits)

lemma IGBPDequeueBufferResponseParcel_ok:
  "\<exists>out. IGBPDequeueBufferResponseParcel slot fence = Inr out"
proof -
  have "(\<lambda>p. case Write (u32_to_le slot) p of
               Inl e \<Rightarrow> Inl e
             | Inr p1 \<Rightarrow>
                 (case Write (u32_to_le 1) p1 of
                    Inl e \<Rightarrow> Inl e
                  | Inr p2 \<Rightarrow>
                      (case WriteObject fence p2 of
                         Inl e \<Rightarrow> Inl e
                       | Inr p3 \<Rightarrow> Write (u32_to_le 0) p3))) =
        WriteAll [u32_to_le slot, u32_to_le 1, u32_to_le (of_nat (length fence)),
                  u32_to_le 0, fence, u32_to_le 0]"
    by (rule ext) (simp add: WriteObject_WriteAll split: sum.splits)
  then show ?thesis
    unfolding IGBPDequeueBufferResponseParcel_def
    using Serialize_WriteAll_ok[OF Parcel_default_ready] by simp
qed

lemma IGBPEmptyResponseParcel_bytes:
  "IGBPEmptyResponseParcel =
     Inr ([4,0,0,0, 16,0,0,0, 4,0,0,0, 20,0,0,0, 0,0,0,0] @ replicate 44 0)"
  by code_simp

lemma IGBPQueueBufferResponseParcel_bytes:
  "IGBPQueueBufferResponseParcel 1280 720 =
     Inr ([20,0,0,0, 16,0,0,0, 4,0,0,0, 36,0,0,0,
           0,5,0,0, 208,2,0,0, 0,0,0,0, 0,0,0,0, 0,0,0,0] @ replicate 28 0)"
  by code_simp

lemma filter_update_count:
  "i < length q \<Longrightarrow> \<not> P (q ! i) \<Longrightarrow> P s \<Longrightarrow>
     length (filter P (q[i := s])) = Suc (length (filter P q))"
proof (induction q arbitrary: i)
  case Nil
  then show ?case by simp
next
  case (Cons a q)
  then show ?case by (cases i) auto
qed

lemma QueueBuffer_pending:
  assumes "QueueBuffer slot tr crop interval fence q = Inr q'"
  shows "num_pending q' = Suc (num_pending q) \<and> length q' = length q \<and>
         unat slot < length q \<and> status (q ! unat slot) = Dequeued \<and>
         status (q' ! unat slot) = Queued"
proof -
  from assms have r: "unat slot < length q" "status (q ! unat slot) = Dequeued"
    and q': "q' = q[unat slot := (q ! unat slot)
                  \<lparr>status := Queued, multi_fence := fence, transform := tr,
                   crop_rect := crop, swap_interval := interval\<rparr>]"
    by (auto simp: QueueBuffer_def split: if_splits)
  have "num_pending q' = Suc (num_pending q)"
    unfolding num_pending_def q' using r by (intro filter_update_count) simp_all
  with r q' show ?thesis by simp
qed

lemma example_dequeued_1: "example_dequeued 1 = Some [dequeued_slot]"
  by (simp add: example_dequeued_def)

lemma example_free_1: "example_free 1 = Some [free_slot]"
  by (simp add: example_free_def)

lemmas TransactionId_defs =
  TransactionId_CancelBuffer_def TransactionId_DetachBuffer_def TransactionId_Connect_def
  TransactionId_SetPreallocatedBuffer_def TransactionId_DequeueBuffer_def
  TransactionId_RequestBuffer_def TransactionId_QueueBuffer_def TransactionId_Query_def
  TransactionId_Disconnect_def

lemma QueueBuffer_response_fields:
  "field32 16 QueueBuffer_response = 1280 \<and> field32 20 QueueBuffer_response = 720 \<and>
   field32 24 QueueBuffer_response = 0 \<and> field32 28 QueueBuffer_response = 0 \<and>
   field32 32 QueueBuffer_response = 0"
  by (simp add: QueueBuffer_response_def field32_def slice_def u32_from_le_def)

lemma TransactParcel_QueueBuffer:
  "TransactParcel ext nv qid TransactionId_QueueBuffer flags buf =
     (case FindBufferQueue nv qid of
        Inl e \<Rightarrow> Inl e
      | Inr q \<Rightarrow>
          (case IGBPQueueBufferRequestParcel buf of
             Inl e \<Rightarrow> Inl e
           | Inr request \<Rightarrow>
               (case QueueBuffer (qb_slot request) (qb_transform request)
                       (GetCropRect request) (qb_swap_interval request)
                       (qb_multi_fence request) q of
                  Inl e \<Rightarrow> Inl e
                | Inr q' \<Rightarrow>
                    Inr (\<lparr>written = Some QueueBuffer_response, response = Some success,
                          sleeping = None\<rparr>,
                         nv(qid \<mapsto> q')))))"
  by (simp add: TransactParcel_def TransactionId_defs IGBPQueueBufferResponseParcel_bytes
      QueueBuffer_response_def split: sum.splits)

lemma queue_request_parsed:
  "IGBPQueueBufferRequestParcel queue_request =
     Inr \<lparr>qb_slot = 0, timestamp = 0, is_auto_timestamp = 0, crop_top = 0,
          crop_left = 0, crop_right = 0, crop_bottom = 0, scaling_mode = 0,
          qb_transform = 0, sticky_transform = 0, qb_swap_interval = 0,
          qb_multi_fence = replicate 36 0\<rparr>"
  by code_simp

lemma query_request_parsed: "IGBPQueryRequestParcel query_request = Inr 2"
  by code_simp

lemma dequeue_request_parsed:
  "IGBPDequeueBufferRequestParcel dequeue_request =
     Inr \<lparr>pixel_format = 1, width = 1280, height = 720, get_frame_timestamps = 0, usage = 0\<rparr>"
  by code_simp

lemma IGBPQueryResponseParcel_0:
  "IGBPQueryResponseParcel 0 =
     Inr ([4,0,0,0, 16,0,0,0, 4,0,0,0, 20,0,0,0, 0,0,0,0] @ replicate 44 0)"
  by code_simp

lemma example_descriptor_dims:
  "field32 4 example_descriptor = 1280 \<and> field32 8 example_descriptor = 720"
  by (simp add: field32_def slice_def example_descriptor_def length_u32_to_le u32_from_to_le)

lemma DequeueBuffer_examples:
  "DequeueBuffer example_ext 1280 720 [dequeued_slot] = None"
  "DequeueBuffer example_ext 1280 720 [free_slot] =
     Some ((0, replicate 36 0), [dequeued_slot])"
  by (simp_all add: DequeueBuffer_def eligible_def dequeued_slot_def free_slot_def example_ext_def
      example_descriptor_dims)

lemma DequeueBuffer_wakeup_response:
  "DequeueBuffer_wakeup ext nv qid w h = Inr (ctx, nv') \<Longrightarrow> response ctx = Some success"
  unfolding DequeueBuffer_wakeup_def
  by (auto split: sum.splits option.splits prod.splits)

lemma TransactParcel_response:
  assumes "TransactParcel ext nv qid t flags buf = Inr (ctx, nv')"
  shows "response ctx = Some success"
proof (cases "FindBufferQueue nv qid")
  case (Inl e)
  with assms show ?thesis by (simp add: TransactParcel_def)
next
  case (Inr q)
  consider (connect) "t = TransactionId_Connect"
    | (preallocated) "t = TransactionId_SetPreallocatedBuffer"
    | (dequeue) "t = TransactionId_DequeueBuffer"
    | (request) "t = TransactionId_RequestBuffer"
    | (queue) "t = TransactionId_QueueBuffer"
    | (query) "t = TransactionId_Query"
    | (cancel) "t = TransactionId_CancelBuffer"
    | (disconnect) "t = TransactionId_Disconnect"
    | (detach) "t = TransactionId_DetachBuffer"
    | (other) "t \<noteq> TransactionId_Connect" "t \<noteq> TransactionId_SetPreallocatedBuffer"
        "t \<noteq> TransactionId_DequeueBuffer" "t \<noteq> TransactionId_RequestBuffer"
        "t \<noteq> TransactionId_QueueBuffer" "t \<noteq> TransactionId_Query"
        "t \<noteq> TransactionId_CancelBuffer" "t \<noteq> TransactionId_Disconnect"
        "t \<noteq> TransactionId_DetachBuffer"
    by blast
  then show ?thesis
  proof cases
    case connect
    with assms Inr show ?thesis
      by (simp add: TransactParcel_def TransactionId_defs) (auto split: sum.splits)
  next
    case preallocated
    with assms Inr show ?thesis
      by (simp add: TransactParcel_def TransactionId_defs) (auto split: sum.splits)
  next
    case dequeue
    with assms Inr show ?thesis
      by (simp add: TransactParcel_def TransactionId_defs) (auto split: sum.splits option.splits prod.splits)
  next
    case request
    with assms Inr show ?thesis
      by (simp add: TransactParcel_def TransactionId_defs) (auto split: sum.splits)
  next
    case queue
    with assms Inr show ?thesis
      by (simp add: TransactParcel_def TransactionId_defs) (auto split: sum.splits)
  next
    case query
    with assms Inr show ?thesis
      by (simp add: TransactParcel_def TransactionId_defs) (auto split: sum.splits)
  next
    case cancel
    with assms Inr show ?thesis
      by (simp add: TransactParcel_def TransactionId_defs) (auto split: sum.splits)
  next
    case disconnect
    with assms Inr show ?thesis
      by (simp add: TransactParcel_def TransactionId_defs) (auto split: sum.splits)
  next
    case detach
    with assms Inr show ?thesis
      by (simp add: TransactParcel_def TransactionId_defs) (auto split: sum.splits)
  next
    case other
    with assms Inr show ?thesis
      by (simp add: TransactParcel_def)
  qed
qed

lemma TransactParcel_DequeueBuffer:
  "TransactParcel ext nv qid TransactionId_DequeueBuffer flags buf =
     (case FindBufferQueue nv qid of
        Inl e \<Rightarrow> Inl e
      | Inr q \<Rightarrow>
          (case IGBPDequeueBufferRequestParcel buf of
             Inl e \<Rightarrow> Inl e
           | Inr request \<Rightarrow>
               (case DequeueBuffer ext (width request) (height request) q of
                  Some ((slot, fence), q') \<Rightarrow>
                    (case IGBPDequeueBufferResponseParcel slot fence of
                       Inl e \<Rightarrow> Inl e
                     | Inr out \<Rightarrow>
                         Inr (\<lparr>written = Some out, response = Some success,
                               sleeping = None\<rparr>,
                              nv(qid \<mapsto> q')))
                | None \<Rightarrow>
                    Inr (\<lparr>written = None, response = Some success,
                          sleeping = Some (qid, width request, height request)\<rparr>,
                         nv))))"
  by (simp add: TransactParcel_def TransactionId_defs split: sum.splits)

lemma IGBPDequeueBufferResponseParcel_example:
  "IGBPDequeueBufferResponseParcel 0 (replicate 36 0) =
     Inr ([56,0,0,0, 16,0,0,0, 4,0,0,0, 72,0,0,0, 0,0,0,0, 1,0,0,0, 36,0,0,0] @
          replicate 136 0)"
  by code_simp

section \<open>The claims\<close>

text \<open>
  C1, as the source has it. A DequeueBuffer transaction that finds no eligible slot is
  not answered with a failure: \<open>TransactParcel\<close> writes no response parcel, leaves the
  registry as it is, and puts the caller to sleep on the queue's event with a callback
  that captured the queue id, the width and the height. When the caller is woken, the
  callback looks the queue up again and makes the same dequeue attempt (the same width
  and height) on the queue as it is then; if a slot is found, it does what
  \<open>TransactParcel\<close> itself does on a hit: it writes the response parcel and pushes
  \<open>RESULT_SUCCESS\<close>. If the attempt misses again, the callback's assertion
  (\<open>Could not dequeue buffer.\<close>) fails and the path aborts: the callback never sleeps
  again.
\<close>

theorem DequeueBuffer_miss_and_wakeup:
  "(nv qid = Some q \<and> IGBPDequeueBufferRequestParcel buf = Inr request \<and>
    DequeueBuffer ext (width request) (height request) q = None \<longrightarrow>
      TransactParcel ext nv qid TransactionId_DequeueBuffer flags buf =
        Inr (\<lparr>written = None, response = Some success,
              sleeping = Some (qid, width request, height request)\<rparr>, nv)) \<and>
   (nv1 qid = Some q1 \<and> DequeueBuffer ext w h q1 = Some ((slot, fence), q2) \<longrightarrow>
      (\<exists>out. IGBPDequeueBufferResponseParcel slot fence = Inr out \<and>
             DequeueBuffer_wakeup ext nv1 qid w h =
               Inr (\<lparr>written = Some out, response = Some success, sleeping = None\<rparr>,
                    nv1(qid \<mapsto> q2)))) \<and>
   (nv1 qid = Some q1 \<and> IGBPDequeueBufferRequestParcel buf = Inr request \<and>
    DequeueBuffer ext (width request) (height request) q1 = Some ((slot, fence), q2) \<longrightarrow>
      DequeueBuffer_wakeup ext nv1 qid (width request) (height request) =
        TransactParcel ext nv1 qid TransactionId_DequeueBuffer flags buf) \<and>
   (nv1 qid = Some q1 \<and> DequeueBuffer ext w h q1 = None \<longrightarrow>
      DequeueBuffer_wakeup ext nv1 qid w h = Inl (AssertFailed ''Could not dequeue buffer.''))"
proof -
  have a: "nv qid = Some q \<and> IGBPDequeueBufferRequestParcel buf = Inr request \<and>
    DequeueBuffer ext (width request) (height request) q = None \<Longrightarrow>
      TransactParcel ext nv qid TransactionId_DequeueBuffer flags buf =
        Inr (\<lparr>written = None, response = Some success,
              sleeping = Some (qid, width request, height request)\<rparr>, nv)"
    unfolding TransactParcel_DequeueBuffer by (simp add: FindBufferQueue_def)
  have b: "nv1 qid = Some q1 \<and> DequeueBuffer ext w h q1 = Some ((slot, fence), q2) \<Longrightarrow>
      (\<exists>out. IGBPDequeueBufferResponseParcel slot fence = Inr out \<and>
             DequeueBuffer_wakeup ext nv1 qid w h =
               Inr (\<lparr>written = Some out, response = Some success, sleeping = None\<rparr>,
                    nv1(qid \<mapsto> q2)))"
    using IGBPDequeueBufferResponseParcel_ok[of slot fence]
    by (auto simp: DequeueBuffer_wakeup_def FindBufferQueue_def)
  have c: "nv1 qid = Some q1 \<and> IGBPDequeueBufferRequestParcel buf = Inr request \<and>
    DequeueBuffer ext (width request) (height request) q1 = Some ((slot, fence), q2) \<Longrightarrow>
      DequeueBuffer_wakeup ext nv1 qid (width request) (height request) =
        TransactParcel ext nv1 qid TransactionId_DequeueBuffer flags buf"
    unfolding TransactParcel_DequeueBuffer
    by (simp add: DequeueBuffer_wakeup_def FindBufferQueue_def)
  have d: "nv1 qid = Some q1 \<and> DequeueBuffer ext w h q1 = None \<Longrightarrow>
      DequeueBuffer_wakeup ext nv1 qid w h = Inl (AssertFailed ''Could not dequeue buffer.'')"
    by (simp add: DequeueBuffer_wakeup_def FindBufferQueue_def)
  from a b c d show ?thesis by blast
qed

theorem DequeueBuffer_miss_and_wakeup_witness:
  "example_dequeued 1 = Some [dequeued_slot] \<and>
   DequeueBuffer example_ext 1280 720 [dequeued_slot] = None \<and>
   TransactParcel example_ext example_dequeued 1 TransactionId_DequeueBuffer 0 dequeue_request =
     Inr (\<lparr>written = None, response = Some success, sleeping = Some (1, 1280, 720)\<rparr>,
          example_dequeued) \<and>
   example_free 1 = Some [free_slot] \<and>
   DequeueBuffer example_ext 1280 720 [free_slot] = Some ((0, replicate 36 0), [dequeued_slot]) \<and>
   DequeueBuffer_wakeup example_ext example_free 1 1280 720 =
     Inr (\<lparr>written =
             Some ([56,0,0,0, 16,0,0,0, 4,0,0,0, 72,0,0,0, 0,0,0,0, 1,0,0,0, 36,0,0,0] @
                   replicate 136 0),
           response = Some success, sleeping = None\<rparr>,
          example_free(1 \<mapsto> [dequeued_slot])) \<and>
   DequeueBuffer_wakeup example_ext example_free 1 1280 720 =
     TransactParcel example_ext example_free 1 TransactionId_DequeueBuffer 0 dequeue_request \<and>
   DequeueBuffer_wakeup example_ext example_dequeued 1 1280 720 =
     Inl (AssertFailed ''Could not dequeue buffer.'')"
  using DequeueBuffer_miss_and_wakeup[of example_dequeued 1 "[dequeued_slot]" dequeue_request
      "\<lparr>pixel_format = 1, width = 1280, height = 720, get_frame_timestamps = 0, usage = 0\<rparr>"
      example_ext 0 example_free "[free_slot]" 1280 720 0 "replicate 36 0" "[dequeued_slot]"]
    DequeueBuffer_miss_and_wakeup[of example_free 1 "[free_slot]" dequeue_request
      "\<lparr>pixel_format = 1, width = 1280, height = 720, get_frame_timestamps = 0, usage = 0\<rparr>"
      example_ext 0 example_dequeued "[dequeued_slot]" 1280 720 0 "replicate 36 0" "[dequeued_slot]"]
  by (auto simp add: example_dequeued_1 example_free_1 DequeueBuffer_examples
      dequeue_request_parsed IGBPDequeueBufferResponseParcel_example)

text \<open>
  C1, the counterexample. The claim as stated fails on the queue 1 whose only slot is
  DEQUEUED: the transaction misses and the caller sleeps; woken with the queue
  unchanged, the callback misses again and fails its assertion instead of sleeping
  again.
\<close>

theorem DequeueBuffer_wakeup_counterexample:
  "example_dequeued 1 = Some [dequeued_slot] \<and>
   DequeueBuffer example_ext 1280 720 [dequeued_slot] = None \<and>
   TransactParcel example_ext example_dequeued 1 TransactionId_DequeueBuffer 0 dequeue_request =
     Inr (\<lparr>written = None, response = Some success, sleeping = Some (1, 1280, 720)\<rparr>,
          example_dequeued) \<and>
   DequeueBuffer_wakeup example_ext example_dequeued 1 1280 720 =
     Inl (AssertFailed ''Could not dequeue buffer.'')"
  unfolding TransactParcel_DequeueBuffer
  by (simp add: DequeueBuffer_wakeup_def FindBufferQueue_def example_dequeued_1
      DequeueBuffer_examples dequeue_request_parsed)

text \<open>
  C2. At the gate of the display service (\<open>GetDisplayServiceImpl\<close>), for every pair of
  a permission and a policy: permission User succeeds exactly when the policy is User;
  permission System or Manager succeeds exactly when the policy is User or Compositor;
  every other pair (also a permission or a policy outside the enumerators) is answered
  with \<open>ERR_PERMISSION_DENIED\<close> and no service interface. On success the result is
  \<open>RESULT_SUCCESS\<close> and the interface handed out is \<open>IApplicationDisplayService\<close>.
\<close>

theorem service_access_gate:
  "IsValidServiceAccess permission policy =
     ((permission = Permission_User \<and> policy = Policy_User) \<or>
      ((permission = Permission_System \<or> permission = Permission_Manager) \<and>
       (policy = Policy_User \<or> policy = Policy_Compositor))) \<and>
   GetDisplayServiceImpl permission policy =
     (if (permission = Permission_User \<and> policy = Policy_User) \<or>
         ((permission = Permission_System \<or> permission = Permission_Manager) \<and>
          (policy = Policy_User \<or> policy = Policy_Compositor))
      then \<lparr>result = RESULT_SUCCESS, pushed = [], interfaces = [IApplicationDisplayService]\<rparr>
      else \<lparr>result = ERR_PERMISSION_DENIED, pushed = [], interfaces = []\<rparr>) \<and>
   ERR_PERMISSION_DENIED \<noteq> RESULT_SUCCESS"
  by (simp add: IsValidServiceAccess_def GetDisplayServiceImpl_def Permission_User_def
      Permission_System_def Permission_Manager_def ERR_PERMISSION_DENIED_def RESULT_SUCCESS_def)

text \<open>
  C3, as the source has it. \<open>OpenDisplayImpl\<close> cuts the name at its first NUL and asserts
  that it is \<open>Default\<close>: for every other name the assertion fails and the path aborts, no
  result code is pushed. \<open>ERR_NOT_FOUND\<close> is pushed only for the name \<open>Default\<close>, when
  the registry has no such display; otherwise the display id is pushed after
  \<open>RESULT_SUCCESS\<close>.
\<close>

theorem OpenDisplayImpl_non_default:
  "(takeWhile (\<lambda>c. c \<noteq> CHR 0x00) name \<noteq> ''Default'' \<longrightarrow>
      OpenDisplayImpl od name = Inl (AssertFailed ''Non-default displays aren't supported yet'')) \<and>
   (takeWhile (\<lambda>c. c \<noteq> CHR 0x00) name = ''Default'' \<longrightarrow>
      OpenDisplayImpl od name =
        (case od ''Default'' of
           None \<Rightarrow> Inr \<lparr>result = ERR_NOT_FOUND, pushed = [], interfaces = []\<rparr>
         | Some display_id \<Rightarrow>
             Inr \<lparr>result = RESULT_SUCCESS, pushed = [display_id], interfaces = []\<rparr>))"
  by (simp add: OpenDisplayImpl_def Let_def)

theorem OpenDisplayImpl_non_default_witness:
  "takeWhile (\<lambda>c. c \<noteq> CHR 0x00) ''Other'' \<noteq> ''Default'' \<and>
   OpenDisplayImpl (\<lambda>n. None) ''Other'' =
     Inl (AssertFailed ''Non-default displays aren't supported yet'') \<and>
   takeWhile (\<lambda>c. c \<noteq> CHR 0x00) (''Default'' @ [CHR 0x00, CHR ''x'']) = ''Default'' \<and>
   OpenDisplayImpl (\<lambda>n. None) (''Default'' @ [CHR 0x00, CHR ''x'']) =
     Inr \<lparr>result = ERR_NOT_FOUND, pushed = [], interfaces = []\<rparr> \<and>
   OpenDisplayImpl (\<lambda>n. if n = ''Default'' then Some 0 else None) (''Default'' @ [CHR 0x00, CHR ''x'']) =
     Inr \<lparr>result = RESULT_SUCCESS, pushed = [0], interfaces = []\<rparr>"
  using OpenDisplayImpl_non_default[of "''Other''" "\<lambda>n. None"]
    OpenDisplayImpl_non_default[of "''Default'' @ [CHR 0x00, CHR ''x'']" "\<lambda>n. None"]
    OpenDisplayImpl_non_default[of "''Default'' @ [CHR 0x00, CHR ''x'']" "\<lambda>n. if n = ''Default'' then Some 0 else None"]
  by simp

text \<open>
  C3, the counterexample. The claim as stated fails at the name \<open>Other\<close>:
  the call aborts on its assertion and does not answer \<open>ERR_NOT_FOUND\<close>.
\<close>

theorem OpenDisplayImpl_non_default_counterexample:
  "OpenDisplayImpl (\<lambda>n. None) ''Other'' =
     Inl (AssertFailed ''Non-default displays aren't supported yet'') \<and>
   OpenDisplayImpl (\<lambda>n. None) ''Other'' \<noteq>
     Inr \<lparr>result = ERR_NOT_FOUND, pushed = [], interfaces = []\<rparr>"
  by (simp add: OpenDisplayImpl_def Let_def)

text \<open>
  C4. Every parcel that \<open>Serialize\<close> produces, whatever sequence of writes its
  \<open>SerializeData\<close> makes, starts with a 16-byte header whose fields, read back from the
  returned bytes, are \<open>data_offset = 16\<close>, \<open>objects_size = 4\<close> and
  \<open>objects_offset = 16 + data_size\<close>, where \<open>data_size\<close> is the number of data bytes
  written after the header (as the \<open>u32\<close> the header field is; the number itself when it
  fits in 32 bits). \<open>Serialize\<close> requires that nothing was read from the parcel; the
  backing vector holds the header (a parcel made by \<open>Parcel()\<close> has 0x40 bytes).
\<close>

theorem Serialize_header_invariant:
  assumes "read_index p = 0" and "sizeof_Header \<le> length (buffer p)"
  shows "\<exists>out. Serialize (WriteAll vs) p = Inr out \<and>
           data_offset (Header_from_bytes (slice 0 sizeof_Header out)) = 16 \<and>
           objects_size (Header_from_bytes (slice 0 sizeof_Header out)) = 4 \<and>
           objects_offset (Header_from_bytes (slice 0 sizeof_Header out)) =
             16 + data_size (Header_from_bytes (slice 0 sizeof_Header out)) \<and>
           data_size (Header_from_bytes (slice 0 sizeof_Header out)) = of_nat (data_bytes vs) \<and>
           (data_bytes vs < 2 ^ 32 \<longrightarrow>
              unat (data_size (Header_from_bytes (slice 0 sizeof_Header out))) = data_bytes vs)"
proof -
  let ?p0 = "p\<lparr>write_index := sizeof_Header\<rparr>"
  have a: "write_index ?p0 \<le> length (buffer ?p0) + 3"
    using assms(2) by simp
  have b: "write_index ?p0 mod 4 = 0" by (simp add: sizeof_Header_def)
  from WriteAll_ok[OF a b, of vs] obtain b1 where
    w: "WriteAll vs ?p0 = Inr (?p0\<lparr>buffer := b1, write_index := write_index ?p0 + data_bytes vs\<rparr>)"
    and l: "length (buffer ?p0) \<le> length b1" by blast
  let ?h = "\<lparr>data_size = (of_nat (data_bytes vs) :: u32), data_offset = of_nat sizeof_Header,
             objects_size = 4,
             objects_offset = of_nat (sizeof_Header + unat (of_nat (data_bytes vs) :: u32))\<rparr>"
  let ?out = "Header_to_bytes ?h @ drop 16 b1"
  have len: "16 \<le> length b1" using l assms(2) by (simp add: sizeof_Header_def)
  have s: "Serialize (WriteAll vs) p = Inr ?out"
    using assms(1) w len
    by (simp add: Serialize_def Let_def memcpy_to_def length_Header_to_bytes sizeof_Header_def)
  have sl: "slice 0 sizeof_Header ?out = Header_to_bytes ?h"
    by (simp add: slice_def sizeof_Header_def length_Header_to_bytes)
  have h: "Header_from_bytes (slice 0 sizeof_Header ?out) = ?h"
    unfolding sl using Header_from_to_bytes[of ?h "[]"] by simp
  have u: "data_bytes vs < 2 ^ 32 \<longrightarrow> unat (of_nat (data_bytes vs) :: u32) = data_bytes vs"
    by (simp add: unat_of_nat)
  show ?thesis
    apply (rule exI[of _ ?out])
    unfolding h using s u by (simp add: sizeof_Header_def)
qed

theorem Serialize_header_invariant_witness:
  "read_index Parcel_default = 0 \<and> sizeof_Header \<le> length (buffer Parcel_default) \<and>
   data_bytes [u32_to_le 7, [1, 2]] = 8 \<and>
   Serialize (WriteAll [u32_to_le 7, [1, 2]]) Parcel_default =
     Inr ([8,0,0,0, 16,0,0,0, 4,0,0,0, 24,0,0,0, 7,0,0,0, 1,2,0,0] @ replicate 40 0) \<and>
   (\<exists>out. Serialize (WriteAll [u32_to_le 7, [1, 2]]) Parcel_default = Inr out \<and>
      data_offset (Header_from_bytes (slice 0 sizeof_Header out)) = 16 \<and>
      objects_size (Header_from_bytes (slice 0 sizeof_Header out)) = 4 \<and>
      objects_offset (Header_from_bytes (slice 0 sizeof_Header out)) = 24 \<and>
      data_size (Header_from_bytes (slice 0 sizeof_Header out)) = 8 \<and>
      unat (data_size (Header_from_bytes (slice 0 sizeof_Header out))) = 8)"
proof -
  have r: "read_index Parcel_default = 0" by (simp add: Parcel_default_def)
  have l: "sizeof_Header \<le> length (buffer Parcel_default)"
    by (simp add: Parcel_default_def sizeof_Header_def DefaultBufferSize_def)
  have d: "data_bytes [u32_to_le 7, [1, 2]] = 8"
    by (simp add: data_bytes_def length_u32_to_le AlignUp_def)
  have s: "Serialize (WriteAll [u32_to_le 7, [1, 2]]) Parcel_default =
     Inr ([8,0,0,0, 16,0,0,0, 4,0,0,0, 24,0,0,0, 7,0,0,0, 1,2,0,0] @ replicate 40 0)"
    by code_simp
  from Serialize_header_invariant[OF r l, of "[u32_to_le 7, [1, 2]]"] r l d s
  show ?thesis by auto
qed

text \<open>
  C5. After a single \<open>Read<T>\<close>, \<open>ReadBlock\<close> or \<open>Write<T>\<close> the active cursor is a
  multiple of 4: a read that stays inside the buffer returns and leaves the read cursor
  aligned, a write returns and leaves the write cursor aligned, and no call returns with
  an unaligned cursor. (The cursor before the call need not even be aligned. The bound on
  the write cursor holds for every parcel: it starts at 0, \<open>Serialize\<close> sets it to 16 and
  \<open>Write\<close> keeps it within 3 of the end of the vector.)
\<close>

theorem cursor_aligned_after_access:
  "(read_index p + n \<le> length (buffer p) \<longrightarrow>
      (\<exists>v p'. Read n p = Inr (v, p') \<and> read_index p' mod 4 = 0)) \<and>
   (read_index p + n \<le> length (buffer p) \<longrightarrow>
      (\<exists>v p'. ReadBlock n p = Inr (v, p') \<and> read_index p' mod 4 = 0)) \<and>
   (write_index p \<le> length (buffer p) + DefaultBufferSize \<longrightarrow>
      (\<exists>p'. Write val p = Inr p' \<and> write_index p' mod 4 = 0)) \<and>
   (\<forall>v p'. Read n p = Inr (v, p') \<longrightarrow> read_index p' mod 4 = 0) \<and>
   (\<forall>v p'. ReadBlock n p = Inr (v, p') \<longrightarrow> read_index p' mod 4 = 0) \<and>
   (\<forall>p'. Write val p = Inr p' \<longrightarrow> write_index p' mod 4 = 0)"
proof -
  have r1: "\<And>v p'. Read n p = Inr (v, p') \<Longrightarrow> read_index p' mod 4 = 0"
    by (auto simp: Read_def AlignUp_4_mod split: if_splits)
  have r2: "\<And>v p'. ReadBlock n p = Inr (v, p') \<Longrightarrow> read_index p' mod 4 = 0"
    by (auto simp: ReadBlock_def AlignUp_4_mod split: if_splits)
  have r3: "\<And>p'. Write val p = Inr p' \<Longrightarrow> write_index p' mod 4 = 0"
    by (auto simp: Write_def Let_def AlignUp_4_mod split: sum.splits)
  have e1: "read_index p + n \<le> length (buffer p) \<Longrightarrow> \<exists>v p'. Read n p = Inr (v, p')"
    by (simp add: Read_def)
  have e2: "read_index p + n \<le> length (buffer p) \<Longrightarrow> \<exists>v p'. ReadBlock n p = Inr (v, p')"
    by (simp add: ReadBlock_def)
  have e3: "write_index p \<le> length (buffer p) + DefaultBufferSize \<Longrightarrow> \<exists>p'. Write val p = Inr p'"
    using Write_ok[of p val] by blast
  show ?thesis using r1 r2 r3 e1 e2 e3 by blast
qed

theorem cursor_aligned_after_access_witness:
  "read_index (Parcel_of [1, 2, 3, 4, 5, 6]\<lparr>read_index := 4\<rparr>) + 1
      \<le> length (buffer (Parcel_of [1, 2, 3, 4, 5, 6]\<lparr>read_index := 4\<rparr>)) \<and>
   write_index (Parcel_of [1, 2, 3, 4, 5, 6]\<lparr>read_index := 4\<rparr>)
      \<le> length (buffer (Parcel_of [1, 2, 3, 4, 5, 6]\<lparr>read_index := 4\<rparr>)) + DefaultBufferSize \<and>
   (\<exists>v p'. Read 1 (Parcel_of [1, 2, 3, 4, 5, 6]\<lparr>read_index := 4\<rparr>) = Inr (v, p') \<and>
      read_index p' mod 4 = 0) \<and>
   (\<exists>v p'. ReadBlock 1 (Parcel_of [1, 2, 3, 4, 5, 6]\<lparr>read_index := 4\<rparr>) = Inr (v, p') \<and>
      read_index p' mod 4 = 0) \<and>
   (\<exists>p'. Write [9] (Parcel_of [1, 2, 3, 4, 5, 6]\<lparr>read_index := 4\<rparr>) = Inr p' \<and>
      write_index p' mod 4 = 0) \<and>
   Read 1 (Parcel_of [1, 2, 3, 4, 5, 6]\<lparr>read_index := 4\<rparr>) =
     Inr ([5], Parcel_of [1, 2, 3, 4, 5, 6]\<lparr>read_index := 8\<rparr>) \<and>
   Write [9] (Parcel_of [1, 2, 3, 4, 5, 6]\<lparr>read_index := 4\<rparr>) =
     Inr (Parcel_of [9, 2, 3, 4, 5, 6]\<lparr>read_index := 4, write_index := 4\<rparr>)"
  using cursor_aligned_after_access[of "Parcel_of [1, 2, 3, 4, 5, 6]\<lparr>read_index := 4\<rparr>" 1 "[9]"]
  by (simp add: Parcel_of_def Parcel_default_def DefaultBufferSize_def Read_def Write_def
      memcpy_to_def slice_def AlignUp_def)

text \<open>
  C6. \<open>Deserialize\<close> requires a buffer longer than the 16-byte header. On a buffer
  shorter than 16 bytes (and on one of exactly 16) its assertion fails
  (ProtocolViolation). On a buffer longer than
  16 bytes the failure branch is not taken: the read cursor is set to the header's
  \<open>data_offset\<close> and the subclass's \<open>DeserializeData\<close> runs from there; with the base
  class's empty \<open>DeserializeData\<close> the call returns with the cursor at \<open>data_offset\<close>.
\<close>

theorem Deserialize_precondition:
  "(length (buffer p) \<le> 16 \<longrightarrow> Deserialize d p = Inl ProtocolViolation) \<and>
   (length (buffer p) > 16 \<longrightarrow>
      Deserialize d p =
        d (p\<lparr>read_index := unat (data_offset (Header_from_bytes (slice 0 16 (buffer p))))\<rparr>)) \<and>
   (length (buffer p) > 16 \<longrightarrow>
      Deserialize Inr p =
        Inr (p\<lparr>read_index := unat (data_offset (Header_from_bytes (slice 0 16 (buffer p))))\<rparr>))"
  by (simp add: Deserialize_def sizeof_Header_def)

theorem Deserialize_precondition_witness:
  "length (buffer (Parcel_of (replicate 15 0))) \<le> 16 \<and>
   Deserialize Inr (Parcel_of (replicate 15 0)) = Inl ProtocolViolation \<and>
   length (buffer (Parcel_of
     (u32_to_le 8 @ u32_to_le 20 @ u32_to_le 4 @ u32_to_le 24 @ u32_to_le 9 @ u32_to_le 9)))
     > 16 \<and>
   Deserialize Inr (Parcel_of
     (u32_to_le 8 @ u32_to_le 20 @ u32_to_le 4 @ u32_to_le 24 @ u32_to_le 9 @ u32_to_le 9)) =
     Inr (Parcel_of
       (u32_to_le 8 @ u32_to_le 20 @ u32_to_le 4 @ u32_to_le 24 @ u32_to_le 9 @ u32_to_le 9)
         \<lparr>read_index := 20\<rparr>)"
  using Deserialize_precondition[of "Parcel_of (replicate 15 0)" Inr]
    Deserialize_precondition[of "Parcel_of
     (u32_to_le 8 @ u32_to_le 20 @ u32_to_le 4 @ u32_to_le 24 @ u32_to_le 9 @ u32_to_le 9)" Inr]
  by (simp add: Parcel_of_def length_u32_to_le Header_from_bytes_def slice_def u32_from_to_le)

text \<open>
  C7, as the source has it. \<open>TransactParcel\<close> changes no slot on CancelBuffer or
  DetachBuffer: neither branch reads a slot from the request or calls the buffer queue,
  so the registry, and with it every slot that is DEQUEUED, is left as it was.
  CancelBuffer is a stub that writes no response parcel; DetachBuffer writes the parcel
  of one zero word; both push \<open>RESULT_SUCCESS\<close>.
\<close>

theorem Cancel_Detach_leave_the_queue:
  "nv qid = Some q \<longrightarrow>
     TransactParcel ext nv qid TransactionId_CancelBuffer flags buf =
       Inr (\<lparr>written = None, response = Some success, sleeping = None\<rparr>, nv) \<and>
     TransactParcel ext nv qid TransactionId_DetachBuffer flags buf =
       Inr (\<lparr>written =
               Some ([4,0,0,0, 16,0,0,0, 4,0,0,0, 20,0,0,0, 0,0,0,0] @ replicate 44 0),
             response = Some success, sleeping = None\<rparr>, nv)"
  by (simp add: TransactParcel_def FindBufferQueue_def IGBPEmptyResponseParcel_bytes
      TransactionId_CancelBuffer_def TransactionId_DetachBuffer_def TransactionId_Connect_def
      TransactionId_SetPreallocatedBuffer_def TransactionId_DequeueBuffer_def
      TransactionId_RequestBuffer_def TransactionId_QueueBuffer_def TransactionId_Query_def
      TransactionId_Disconnect_def)

theorem Cancel_Detach_leave_the_queue_witness:
  "example_dequeued 1 = Some [dequeued_slot] \<and>
   TransactParcel example_ext example_dequeued 1 TransactionId_CancelBuffer 0 [] =
     Inr (\<lparr>written = None, response = Some success, sleeping = None\<rparr>, example_dequeued) \<and>
   TransactParcel example_ext example_dequeued 1 TransactionId_DetachBuffer 0 [] =
     Inr (\<lparr>written =
             Some ([4,0,0,0, 16,0,0,0, 4,0,0,0, 20,0,0,0, 0,0,0,0] @ replicate 44 0),
           response = Some success, sleeping = None\<rparr>, example_dequeued)"
  using Cancel_Detach_leave_the_queue[of example_dequeued 1 "[dequeued_slot]" example_ext 0 "[]"]
    example_dequeued_1
  by simp

text \<open>
  C7, the counterexample. The claim as stated fails on the queue 1 whose only slot is
  DEQUEUED: after either transaction the registry is the same, the slot still DEQUEUED
  and not FREE.
\<close>

theorem Cancel_Detach_counterexample:
  "example_dequeued 1 = Some [dequeued_slot] \<and> status dequeued_slot = Dequeued \<and>
   Dequeued \<noteq> Free \<and>
   TransactParcel example_ext example_dequeued 1 TransactionId_CancelBuffer 0 [] =
     Inr (\<lparr>written = None, response = Some success, sleeping = None\<rparr>, example_dequeued) \<and>
   TransactParcel example_ext example_dequeued 1 TransactionId_DetachBuffer 0 [] =
     Inr (\<lparr>written =
             Some ([4,0,0,0, 16,0,0,0, 4,0,0,0, 20,0,0,0, 0,0,0,0] @ replicate 44 0),
           response = Some success, sleeping = None\<rparr>, example_dequeued)"
  by (simp add: TransactParcel_def FindBufferQueue_def IGBPEmptyResponseParcel_bytes
      example_dequeued_1 dequeued_slot_def
      TransactionId_CancelBuffer_def TransactionId_DetachBuffer_def TransactionId_Connect_def
      TransactionId_SetPreallocatedBuffer_def TransactionId_DequeueBuffer_def
      TransactionId_RequestBuffer_def TransactionId_QueueBuffer_def TransactionId_Query_def
      TransactionId_Disconnect_def)

text \<open>
  C8, as the source has it. The response to QueueBuffer is the same parcel whatever the
  queue holds: width 1280, height 720, and \<open>transform_hint\<close>, \<open>num_pending_buffers\<close> and
  \<open>status\<close> all 0. Whenever the transaction completes, the queue has one more pending
  (QUEUED) buffer than before, so at least one, while the response says 0. On a slot in
  DEQUEUED state the transaction does complete and the slot becomes QUEUED.
\<close>

theorem QueueBuffer_response_is_constant:
  "(TransactParcel ext nv qid TransactionId_QueueBuffer flags buf = Inr (ctx, nv') \<longrightarrow>
      written ctx = Some QueueBuffer_response \<and>
      (\<exists>q q'. nv qid = Some q \<and> nv' = nv(qid \<mapsto> q') \<and> num_pending q' = Suc (num_pending q))) \<and>
   (nv qid = Some q \<and> IGBPQueueBufferRequestParcel buf = Inr request \<and>
    unat (qb_slot request) < length q \<and> status (q ! unat (qb_slot request)) = Dequeued \<longrightarrow>
      (\<exists>q'. TransactParcel ext nv qid TransactionId_QueueBuffer flags buf =
              Inr (\<lparr>written = Some QueueBuffer_response, response = Some success,
                    sleeping = None\<rparr>,
                   nv(qid \<mapsto> q')) \<and>
            status (q' ! unat (qb_slot request)) = Queued \<and>
            num_pending q' = Suc (num_pending q))) \<and>
   field32 16 QueueBuffer_response = 1280 \<and> field32 20 QueueBuffer_response = 720 \<and>
   field32 24 QueueBuffer_response = 0 \<and> field32 28 QueueBuffer_response = 0 \<and>
   field32 32 QueueBuffer_response = 0"
proof -
  have a: "TransactParcel ext nv qid TransactionId_QueueBuffer flags buf = Inr (ctx, nv') \<Longrightarrow>
      written ctx = Some QueueBuffer_response \<and>
      (\<exists>q q'. nv qid = Some q \<and> nv' = nv(qid \<mapsto> q') \<and> num_pending q' = Suc (num_pending q))"
    unfolding TransactParcel_QueueBuffer
    by (auto simp: FindBufferQueue_def split: sum.splits option.splits dest: QueueBuffer_pending)
  have b: "nv qid = Some q \<and> IGBPQueueBufferRequestParcel buf = Inr request \<and>
    unat (qb_slot request) < length q \<and> status (q ! unat (qb_slot request)) = Dequeued \<Longrightarrow>
      (\<exists>q'. TransactParcel ext nv qid TransactionId_QueueBuffer flags buf =
              Inr (\<lparr>written = Some QueueBuffer_response, response = Some success,
                    sleeping = None\<rparr>,
                   nv(qid \<mapsto> q')) \<and>
            status (q' ! unat (qb_slot request)) = Queued \<and>
            num_pending q' = Suc (num_pending q))"
  proof -
    assume h: "nv qid = Some q \<and> IGBPQueueBufferRequestParcel buf = Inr request \<and>
      unat (qb_slot request) < length q \<and> status (q ! unat (qb_slot request)) = Dequeued"
    then obtain q' where q': "QueueBuffer (qb_slot request) (qb_transform request)
                       (GetCropRect request) (qb_swap_interval request)
                       (qb_multi_fence request) q = Inr q'"
      by (simp add: QueueBuffer_def)
    from QueueBuffer_pending[OF q'] h q' show ?thesis
      unfolding TransactParcel_QueueBuffer by (auto simp: FindBufferQueue_def)
  qed
  from a b QueueBuffer_response_fields show ?thesis by blast
qed

theorem QueueBuffer_response_is_constant_witness:
  "example_dequeued 1 = Some [dequeued_slot] \<and>
   IGBPQueueBufferRequestParcel queue_request =
     Inr \<lparr>qb_slot = 0, timestamp = 0, is_auto_timestamp = 0, crop_top = 0,
          crop_left = 0, crop_right = 0, crop_bottom = 0, scaling_mode = 0,
          qb_transform = 0, sticky_transform = 0, qb_swap_interval = 0,
          qb_multi_fence = replicate 36 0\<rparr> \<and>
   unat (0 :: u32) < length [dequeued_slot] \<and>
   status ([dequeued_slot] ! unat (0 :: u32)) = Dequeued \<and>
   TransactParcel example_ext example_dequeued 1 TransactionId_QueueBuffer 0 queue_request =
     Inr (\<lparr>written = Some QueueBuffer_response, response = Some success, sleeping = None\<rparr>,
          example_dequeued(1 \<mapsto> [dequeued_slot\<lparr>status := Queued\<rparr>])) \<and>
   status ([dequeued_slot\<lparr>status := Queued\<rparr>] ! 0) = Queued \<and>
   num_pending [dequeued_slot] = 0 \<and>
   num_pending [dequeued_slot\<lparr>status := Queued\<rparr>] = 1 \<and>
   field32 24 QueueBuffer_response = 0 \<and> field32 28 QueueBuffer_response = 0"
proof -
  have t: "TransactParcel example_ext example_dequeued 1 TransactionId_QueueBuffer 0
             queue_request =
     Inr (\<lparr>written = Some QueueBuffer_response, response = Some success, sleeping = None\<rparr>,
          example_dequeued(1 \<mapsto> [dequeued_slot\<lparr>status := Queued\<rparr>]))"
    unfolding TransactParcel_QueueBuffer
    by (simp add: queue_request_parsed FindBufferQueue_def example_dequeued_1 QueueBuffer_def
        dequeued_slot_def free_slot_def GetCropRect_def)
  from QueueBuffer_response_is_constant[of example_ext example_dequeued 1 0 queue_request
      "\<lparr>written = Some QueueBuffer_response, response = Some success, sleeping = None\<rparr>"
      "example_dequeued(1 \<mapsto> [dequeued_slot\<lparr>status := Queued\<rparr>])"
      "[dequeued_slot]"
      "\<lparr>qb_slot = 0, timestamp = 0, is_auto_timestamp = 0, crop_top = 0,
          crop_left = 0, crop_right = 0, crop_bottom = 0, scaling_mode = 0,
          qb_transform = 0, sticky_transform = 0, qb_swap_interval = 0,
          qb_multi_fence = replicate 36 0\<rparr>"] t
  show ?thesis
    by (simp add: example_dequeued_1 queue_request_parsed dequeued_slot_def num_pending_def)
qed

text \<open>
  C8, the counterexample. The claim as stated fails on the queue 1 whose only slot is
  DEQUEUED: after QueueBuffer on slot 0 the queue has one pending buffer and the
  response carries the count 0.
\<close>

theorem QueueBuffer_response_counterexample:
  "TransactParcel example_ext example_dequeued 1 TransactionId_QueueBuffer 0 queue_request =
     Inr (\<lparr>written = Some QueueBuffer_response, response = Some success, sleeping = None\<rparr>,
          example_dequeued(1 \<mapsto> [dequeued_slot\<lparr>status := Queued\<rparr>])) \<and>
   num_pending [dequeued_slot\<lparr>status := Queued\<rparr>] = 1 \<and>
   field32 28 QueueBuffer_response = 0"
  unfolding TransactParcel_QueueBuffer
  by (simp add: queue_request_parsed FindBufferQueue_def example_dequeued_1 QueueBuffer_def
      dequeued_slot_def free_slot_def GetCropRect_def num_pending_def QueueBuffer_response_fields)

text \<open>
  C9, as the source has it. \<open>SetLayerScalingMode\<close> answers a scaling mode past the
  largest defined one (a value above 4, PreserveAspectRatio) with
  \<open>ERR_OPERATION_FAILED\<close>, not with \<open>ERR_UNSUPPORTED\<close>: the range check comes first and
  has its own code. The defined modes outside the accepted subset (None, Freeze,
  ScaleAndCrop: 0, 1, 3) are the ones answered with \<open>ERR_UNSUPPORTED\<close>, which is distinct
  from \<open>ERR_NOT_FOUND\<close> and from \<open>ERR_OPERATION_FAILED\<close>; ScaleToWindow and
  PreserveAspectRatio (2, 4) succeed.
\<close>

theorem SetLayerScalingMode_results:
  "result (SetLayerScalingMode m u) =
     (if m > 4 then ERR_OPERATION_FAILED
      else if m = 2 \<or> m = 4 then RESULT_SUCCESS
      else ERR_UNSUPPORTED) \<and>
   (result (SetLayerScalingMode m u) = ERR_UNSUPPORTED) = (m = 0 \<or> m = 1 \<or> m = 3) \<and>
   ERR_UNSUPPORTED \<noteq> ERR_NOT_FOUND \<and> ERR_UNSUPPORTED \<noteq> ERR_OPERATION_FAILED \<and>
   ERR_OPERATION_FAILED \<noteq> ERR_NOT_FOUND"
  using u32_le_4_cases[of m]
  by (auto simp: SetLayerScalingMode_def NintendoScaleMode_ScaleToWindow_def
      NintendoScaleMode_PreserveAspectRatio_def ERR_UNSUPPORTED_def ERR_NOT_FOUND_def
      ERR_OPERATION_FAILED_def RESULT_SUCCESS_def not_less)

text \<open>
  C9, the counterexample. The claim as stated fails at the scaling mode 5: the answer is
  \<open>ERR_OPERATION_FAILED\<close>.
\<close>

theorem SetLayerScalingMode_out_of_range_counterexample:
  "SetLayerScalingMode 5 0 = \<lparr>result = ERR_OPERATION_FAILED, pushed = [], interfaces = []\<rparr> \<and>
   result (SetLayerScalingMode 5 0) \<noteq> ERR_UNSUPPORTED"
  by (simp add: SetLayerScalingMode_def NintendoScaleMode_ScaleToWindow_def
      NintendoScaleMode_PreserveAspectRatio_def ERR_UNSUPPORTED_def ERR_OPERATION_FAILED_def)

text \<open>
  C10. Whenever \<open>TransactParcel\<close> returns, for whatever transaction code, the result it
  pushed is \<open>RESULT_SUCCESS\<close>, and so is the one pushed by the wake-up callback of a
  suspended DequeueBuffer. A failure of the buffer-queue operation is never turned into
  a result code: when \<open>QueueBuffer\<close> or \<open>RequestBuffer\<close> fails, the transaction aborts
  with that failure and pushes nothing.
\<close>

theorem TransactParcel_pushes_success:
  "(TransactParcel ext nv qid t flags buf = Inr (ctx, nv') \<longrightarrow>
      response ctx = Some success \<and> result success = RESULT_SUCCESS) \<and>
   (DequeueBuffer_wakeup ext nv qid w h = Inr (ctx, nv') \<longrightarrow>
      response ctx = Some success \<and> result success = RESULT_SUCCESS) \<and>
   (nv qid = Some q \<and> IGBPQueueBufferRequestParcel buf = Inr request \<and>
    QueueBuffer (qb_slot request) (qb_transform request) (GetCropRect request)
      (qb_swap_interval request) (qb_multi_fence request) q = Inl e \<longrightarrow>
      TransactParcel ext nv qid TransactionId_QueueBuffer flags buf = Inl e) \<and>
   (nv qid = Some q \<and> IGBPRequestBufferRequestParcel buf = Inr slot \<and>
    RequestBuffer slot q = Inl e \<longrightarrow>
      TransactParcel ext nv qid TransactionId_RequestBuffer flags buf = Inl e)"
proof -
  have c: "result success = RESULT_SUCCESS" by (simp add: success_def)
  have d: "nv qid = Some q \<and> IGBPQueueBufferRequestParcel buf = Inr request \<and>
    QueueBuffer (qb_slot request) (qb_transform request) (GetCropRect request)
      (qb_swap_interval request) (qb_multi_fence request) q = Inl e \<Longrightarrow>
      TransactParcel ext nv qid TransactionId_QueueBuffer flags buf = Inl e"
    unfolding TransactParcel_QueueBuffer by (simp add: FindBufferQueue_def)
  have e: "nv qid = Some q \<and> IGBPRequestBufferRequestParcel buf = Inr slot \<and>
    RequestBuffer slot q = Inl e \<Longrightarrow>
      TransactParcel ext nv qid TransactionId_RequestBuffer flags buf = Inl e"
    by (simp add: TransactParcel_def FindBufferQueue_def TransactionId_defs)
  from TransactParcel_response[of ext nv qid t flags buf ctx nv']
    DequeueBuffer_wakeup_response[of ext nv qid w h ctx nv'] c d e
  show ?thesis by blast
qed

theorem TransactParcel_pushes_success_witness:
  "TransactParcel example_ext example_dequeued 1 TransactionId_Query 0 query_request =
     Inr (\<lparr>written = Some ([4,0,0,0, 16,0,0,0, 4,0,0,0, 20,0,0,0, 0,0,0,0] @ replicate 44 0),
           response = Some success, sleeping = None\<rparr>, example_dequeued) \<and>
   result success = RESULT_SUCCESS \<and>
   example_free 1 = Some [free_slot] \<and>
   QueueBuffer 0 0 \<lparr>rect_left = 0, rect_top = 0, rect_right = 0, rect_bottom = 0\<rparr> 0
     (replicate 36 0) [free_slot] = Inl InvalidState \<and>
   TransactParcel example_ext example_free 1 TransactionId_QueueBuffer 0 queue_request =
     Inl InvalidState"
proof -
  have q: "TransactParcel example_ext example_dequeued 1 TransactionId_Query 0 query_request =
     Inr (\<lparr>written = Some ([4,0,0,0, 16,0,0,0, 4,0,0,0, 20,0,0,0, 0,0,0,0] @ replicate 44 0),
           response = Some success, sleeping = None\<rparr>, example_dequeued)"
    by (simp add: TransactParcel_def FindBufferQueue_def TransactionId_defs example_dequeued_1
      query_request_parsed example_ext_def IGBPQueryResponseParcel_0)
  have f: "QueueBuffer 0 0 \<lparr>rect_left = 0, rect_top = 0, rect_right = 0, rect_bottom = 0\<rparr> 0
     (replicate 36 0) [free_slot] = Inl InvalidState"
    by (simp add: QueueBuffer_def free_slot_def)
  from TransactParcel_pushes_success[of example_ext example_dequeued 1 TransactionId_Query 0
      query_request
      "\<lparr>written = Some ([4,0,0,0, 16,0,0,0, 4,0,0,0, 20,0,0,0, 0,0,0,0] @ replicate 44 0),
           response = Some success, sleeping = None\<rparr>" example_dequeued]
    TransactParcel_pushes_success[of example_ext example_free 1 TransactionId_QueueBuffer 0
      queue_request _ _ _ _ "[free_slot]"
      "\<lparr>qb_slot = 0, timestamp = 0, is_auto_timestamp = 0, crop_top = 0,
          crop_left = 0, crop_right = 0, crop_bottom = 0, scaling_mode = 0,
          qb_transform = 0, sticky_transform = 0, qb_swap_interval = 0,
          qb_multi_fence = replicate 36 0\<rparr>" InvalidState] q f
  show ?thesis
    by (simp add: example_free_1 queue_request_parsed GetCropRect_def)
qed

end
